theory Spec2Isabelle
  imports Main "HOL-Library.Sublist"
begin

section \<open>The TensorFlow configure driver (configure-expect.py)\<close>

text \<open>
  The script answers the questions of TensorFlow's interactive configure script through
  pexpect. Its constructor validates the parameters against the filesystem, four
  properties derive the text of some answers, and \<open>run\<close> walks through the prompts in a
  fixed order.

  Conventions of the model: a Python \<open>str\<close> is a \<open>string\<close> whose characters stand for code
  points below 256; \<open>Optional[T]\<close> is \<open>T option\<close>; an exception is a value of type
  \<open>error\<close>; the filesystem is a predicate telling which paths exist.
\<close>

subsection \<open>Exceptions\<close>

text \<open>
  \<open>pexpect_error\<close> lists what the pexpect library raises (a pattern not seen within the
  timeout, the end of the child's output, a failed spawn, a failed write); \<open>error\<close> adds
  what the script raises itself, the two errors Python raises when the script uses
  \<open>None\<close> as an object (\<open>self.script.after\<close> before any spawn) or as a list (joining the
  capabilities), and the error of decoding bytes that are not UTF-8.
\<close>

datatype pexpect_error = TIMEOUT | EOF | ExceptionPexpect | OSError

datatype error =
    AssertionError string
  | NotImplementedError string
  | AttributeError
  | TypeError
  | UnicodeDecodeError
  | Pexpect pexpect_error

subsection \<open>class bool_y_n\<close>

text \<open>
  The constructor asserts \<open>value in [True, False]\<close>; on a value of type \<open>bool\<close> the
  assertion holds, so the constructor is the datatype's.
\<close>

datatype bool_y_n = Bool_y_n (val: bool)

definition bool_y_n_bool :: "bool_y_n \<Rightarrow> bool" where
  "bool_y_n_bool b = (if val b then True else False)"

definition bool_y_n_repr :: "bool_y_n \<Rightarrow> string" where
  "bool_y_n_repr b = (if val b then ''Y'' else ''N'')"

definition bool_y_n_str :: "bool_y_n \<Rightarrow> string" where
  "bool_y_n_str = bool_y_n_repr"

definition bool_y_n_encode :: "bool_y_n \<Rightarrow> string" where
  "bool_y_n_encode b = bool_y_n_str b"

subsection \<open>Strings: strip and join\<close>

text \<open>
  \<open>str.strip()\<close> without argument removes the leading and the trailing whitespace, where
  whitespace is what \<open>str.isspace\<close> accepts: below 256 these are the code points 9 to 13,
  28 to 32, 133 and 160.
\<close>

definition is_space :: "char \<Rightarrow> bool" where
  "is_space c =
     (let n = (of_char c :: nat)
      in (9 \<le> n \<and> n \<le> 13) \<or> (28 \<le> n \<and> n \<le> 32) \<or> n = 133 \<or> n = 160)"

definition strip :: "string \<Rightarrow> string" where
  "strip s = rev (dropWhile is_space (rev (dropWhile is_space s)))"

fun join_str :: "string \<Rightarrow> string list \<Rightarrow> string" where
  "join_str sep [] = []"
| "join_str sep [x] = x"
| "join_str sep (x # y # ys) = x @ sep @ join_str sep (y # ys)"

subsection \<open>Bytes and UTF-8\<close>

text \<open>
  What the child writes arrives as bytes, and the script decodes it with
  \<open>.decode('utf-8')\<close> before printing. Bytes are a \<open>string\<close> whose characters are the
  byte values; the decoded text is the list of its code points. Decoding is strict, as in
  Python: a lead byte announces one to three continuation bytes, and a truncated
  sequence, a stray continuation byte, an overlong form, a surrogate or a code point
  above 0x10FFFF is refused, which Python reports as UnicodeDecodeError.

  \<open>utf8_from need cp lo\<close> decodes with \<open>need\<close> continuation bytes still to come for the
  code point begun as \<open>cp\<close>, which must reach at least \<open>lo\<close>.
\<close>

type_synonym unicode = "nat list"

fun utf8_from :: "nat \<Rightarrow> nat \<Rightarrow> nat \<Rightarrow> string \<Rightarrow> unicode option" where
  "utf8_from need cp lo [] = (if need = 0 then Some [] else None)"
| "utf8_from need cp lo (c # cs) =
     (let b = (of_char c :: nat) in
      if need = 0 then
        (if b < 128 then map_option (Cons b) (utf8_from 0 0 0 cs)
         else if 194 \<le> b \<and> b \<le> 223 then utf8_from 1 (b - 192) 128 cs
         else if 224 \<le> b \<and> b \<le> 239 then utf8_from 2 (b - 224) 2048 cs
         else if 240 \<le> b \<and> b \<le> 244 then utf8_from 3 (b - 240) 65536 cs
         else None)
      else if 128 \<le> b \<and> b \<le> 191 then
        (let cp' = cp * 64 + (b - 128) in
         if need = 1 then
           (if lo \<le> cp' \<and> cp' \<le> 1114111 \<and> \<not> (55296 \<le> cp' \<and> cp' \<le> 57343)
            then map_option (Cons cp') (utf8_from 0 0 0 cs)
            else None)
         else utf8_from (need - 1) cp' lo cs)
      else None)"

definition decode_utf8 :: "string \<Rightarrow> unicode option" where
  "decode_utf8 bytes = utf8_from 0 0 0 bytes"

subsection \<open>The parameters and the attributes of PexpectTensorFlowConfigure\<close>

text \<open>
  The constructor's parameters and the object's attributes have the same names; the
  flags are \<open>bool\<close> in the parameters and \<open>bool_y_n\<close> in the object, so one record type,
  with the type of the flags as its parameter, serves for both.
\<close>

record 'b conf =
  command :: string
  python_version :: string
  with_jemalloc :: 'b
  with_google_cloud_platform :: 'b
  with_hdfs :: 'b
  with_amazon_s3 :: 'b
  with_kafka :: 'b
  with_xla_jit :: 'b
  with_gdr :: 'b
  with_verbs :: 'b
  with_opencl_sycl :: 'b
  with_cuda :: 'b
  with_fresh_clang :: 'b
  with_mpi :: 'b
  cuda_version :: "string option"
  cuda_path :: "string option"
  cuda_cudnn_version :: "string option"
  cuda_cudnn_path :: "string option"
  cuda_with_tensorrt :: 'b
  cuda_tensorrt_path :: "string option"
  cuda_nccl_version :: "string option"
  cuda_capabilities :: "string list option"
  cuda_with_clang :: 'b
  cuda_gcc_path :: "string option"
  mpi_path :: "string option"
  opts_flags :: "string list option"

type_synonym params = "bool conf"
type_synonym config = "bool_y_n conf"

text \<open>The filesystem, as \<open>os.path.exists\<close> sees it.\<close>

type_synonym filesystem = "string \<Rightarrow> bool"

subsection \<open>The constructor\<close>

text \<open>
  The checks of \<open>__init__\<close>, in the order of the source. An \<open>assert x is not None\<close> is
  the \<open>None\<close> branch of a case distinction, and the code after it sees the string.
\<close>

definition check_tensorrt :: "filesystem \<Rightarrow> params \<Rightarrow> error + unit" where
  "check_tensorrt fs p =
     (if cuda_with_tensorrt p then
        (case cuda_tensorrt_path p of
           None \<Rightarrow> Inl (AssertionError ''cuda_tensorrt_path must be set if cuda_with_tensorrt=True'')
         | Some tp \<Rightarrow>
             if fs tp then Inr ()
             else Inl (AssertionError ''cuda_tensorrt_path is set a non existing folder''))
      else Inr ())"

definition check_gcc :: "filesystem \<Rightarrow> params \<Rightarrow> error + unit" where
  "check_gcc fs p =
     (if \<not> cuda_with_clang p then
        (case cuda_gcc_path p of
           None \<Rightarrow> Inl (AssertionError ''cuda_gcc_path must be set if cuda_with_clang=True'')
         | Some gp \<Rightarrow>
             if fs gp then Inr ()
             else Inl (AssertionError ''cuda_gcc_path is set a non existing file''))
      else Inr ())"

definition check_cuda :: "filesystem \<Rightarrow> params \<Rightarrow> error + unit" where
  "check_cuda fs p =
     (if with_cuda p then
        (case cuda_version p of
           None \<Rightarrow> Inl (AssertionError ''cuda_version must be set if with_cuda=True'')
         | Some cv \<Rightarrow>
        (case cuda_path p of
           None \<Rightarrow> Inl (AssertionError ''cuda_path must be set if with_cuda=True'')
         | Some cp \<Rightarrow>
        (case cuda_cudnn_version p of
           None \<Rightarrow> Inl (AssertionError ''cuda_cudnn_version must be set if with_cuda=True'')
         | Some dv \<Rightarrow>
        (case cuda_cudnn_path p of
           None \<Rightarrow> Inl (AssertionError ''cuda_cudnn_path must be set if with_cuda=True'')
         | Some dp \<Rightarrow>
        (case cuda_nccl_version p of
           None \<Rightarrow> Inl (AssertionError ''cuda_nccl_version must be set if with_cuda=True'')
         | Some nv \<Rightarrow>
        (case cuda_capabilities p of
           None \<Rightarrow> Inl (AssertionError ''cuda_capabilities must be set if with_cuda=True'')
         | Some caps \<Rightarrow>
        (case cuda_gcc_path p of
           None \<Rightarrow> Inl (AssertionError ''cuda_gcc_path must be set if with_cuda=True'')
         | Some gp \<Rightarrow>
             if \<not> fs cp then Inl (AssertionError ''cuda_path is set a non existing folder'')
             else if \<not> fs dp then
               Inl (AssertionError ''cuda_cudnn_path is set a non existing folder'')
             else (case check_gcc fs p of
                     Inl e \<Rightarrow> Inl e
                   | Inr _ \<Rightarrow> check_tensorrt fs p))))))))
      else Inr ())"

definition check_mpi :: "filesystem \<Rightarrow> params \<Rightarrow> error + unit" where
  "check_mpi fs p =
     (if with_mpi p then
        (case mpi_path p of
           None \<Rightarrow> Inl (AssertionError ''mpi_path must be set if with_mpi=True'')
         | Some mp \<Rightarrow>
             if fs mp then Inr ()
             else Inl (AssertionError ''mpi_path is set a non existing folder''))
      else Inr ())"

text \<open>The assignments at the end of \<open>__init__\<close>: every flag is wrapped, the rest is copied.\<close>

definition store :: "params \<Rightarrow> config" where
  "store p =
     \<lparr> command = command p,
       python_version = python_version p,
       with_jemalloc = Bool_y_n (with_jemalloc p),
       with_google_cloud_platform = Bool_y_n (with_google_cloud_platform p),
       with_hdfs = Bool_y_n (with_hdfs p),
       with_amazon_s3 = Bool_y_n (with_amazon_s3 p),
       with_kafka = Bool_y_n (with_kafka p),
       with_xla_jit = Bool_y_n (with_xla_jit p),
       with_gdr = Bool_y_n (with_gdr p),
       with_verbs = Bool_y_n (with_verbs p),
       with_opencl_sycl = Bool_y_n (with_opencl_sycl p),
       with_cuda = Bool_y_n (with_cuda p),
       with_fresh_clang = Bool_y_n (with_fresh_clang p),
       with_mpi = Bool_y_n (with_mpi p),
       cuda_version = cuda_version p,
       cuda_path = cuda_path p,
       cuda_cudnn_version = cuda_cudnn_version p,
       cuda_cudnn_path = cuda_cudnn_path p,
       cuda_with_tensorrt = Bool_y_n (cuda_with_tensorrt p),
       cuda_tensorrt_path = cuda_tensorrt_path p,
       cuda_nccl_version = cuda_nccl_version p,
       cuda_capabilities = cuda_capabilities p,
       cuda_with_clang = Bool_y_n (cuda_with_clang p),
       cuda_gcc_path = cuda_gcc_path p,
       mpi_path = mpi_path p,
       opts_flags = opts_flags p \<rparr>"

definition init :: "filesystem \<Rightarrow> params \<Rightarrow> error + config" where
  "init fs p =
     (if \<not> fs (command p) then
        Inl (AssertionError ''command must be a valid path to TensorFlow configure script'')
      else if with_opencl_sycl p then
        Inl (NotImplementedError ''with_opencl_sycl=True is not implemented'')
      else if cuda_with_clang p then
        Inl (NotImplementedError ''cuda_with_clang=True is not implemented'')
      else (case check_cuda fs p of
              Inl e \<Rightarrow> Inl e
            | Inr _ \<Rightarrow>
                (case check_mpi fs p of
                   Inl e \<Rightarrow> Inl e
                 | Inr _ \<Rightarrow> Inr (store p))))"

subsection \<open>The derived answers\<close>

definition python_bin_path :: "filesystem \<Rightarrow> config \<Rightarrow> error + string" where
  "python_bin_path fs cfg =
     (let path = ''/usr/bin/python'' @ python_version cfg
      in if fs path then Inr path else Inl (AssertionError (path @ '' does not exist'')))"

definition startswith :: "string \<Rightarrow> string \<Rightarrow> bool" where
  "startswith s pre = (take (length pre) s = pre)"

definition python_dist_path :: "filesystem \<Rightarrow> config \<Rightarrow> error + string" where
  "python_dist_path fs cfg =
     (let path = (if startswith (python_version cfg) ''2.''
                  then ''/usr/lib/python'' @ python_version cfg @ ''/dist-packages''
                  else ''/usr/lib/python3/dist-packages'')
      in if fs path then Inr path else Inl (AssertionError (path @ '' does not exist'')))"

definition opts_flags_str :: "config \<Rightarrow> string" where
  "opts_flags_str cfg =
     (case opts_flags cfg of
        None \<Rightarrow> ''''
      | Some xs \<Rightarrow> join_str '' '' (map strip xs))"

definition cuda_capabilities_str :: "config \<Rightarrow> error + string" where
  "cuda_capabilities_str cfg =
     (case cuda_capabilities cfg of
        None \<Rightarrow> Inl TypeError
      | Some xs \<Rightarrow> Inr (join_str '','' (map strip xs)))"

subsection \<open>The pexpect library and the child process\<close>

text \<open>
  The script uses three operations of pexpect: \<open>spawn\<close> starts the command, \<open>expect\<close>
  waits (up to the timeout) for a pattern in the child's output and yields the output
  before the match and the match, and \<open>sendline\<close> writes a line to the child. What they
  do depends on the child, so they are parameters of the model: \<open>'c\<close> is the state of the
  child and of its pty. The output \<open>expect\<close> yields is bytes.
\<close>

datatype pattern = Regex string | Expect_EOF

record 'c pexpect =
  spawn :: "string \<Rightarrow> pexpect_error + 'c"
  expect :: "nat \<Rightarrow> 'c \<Rightarrow> pattern \<Rightarrow> pexpect_error + ('c \<times> string option \<times> string option)"
  sendline :: "'c \<Rightarrow> string \<Rightarrow> pexpect_error + 'c"

text \<open>
  The object \<open>pexpect.spawn\<close> returns, with the attributes the script reads or writes
  and the \<open>closed\<close> flag that only \<open>close()\<close> sets.
\<close>

record 'c spawn_obj =
  child :: 'c
  timeout :: nat
  before :: "string option"
  after :: "string option"
  closed :: bool

text \<open>
  The state \<open>run\<close> works on: the attribute \<open>self.script\<close>, what has been printed, and
  the calls made to pexpect so far, in order.
\<close>

datatype call = Spawn string | Expect pattern | Sendline string

record 'c driver =
  script :: "'c spawn_obj option"
  stdout :: "unicode list"
  calls :: "call list"

datatype 'c outcome = Done "'c driver" | Raised error "'c driver"

fun final :: "'c outcome \<Rightarrow> 'c driver" where
  "final (Done d) = d"
| "final (Raised e d) = d"

text \<open>The exception a run ended with, if any.\<close>

fun raised :: "'c outcome \<Rightarrow> error option" where
  "raised (Done d) = None"
| "raised (Raised e d) = Some e"

type_synonym 'c stmt = "'c driver \<Rightarrow> 'c outcome"

text \<open>Statements one after the other: the first that raises ends the sequence.\<close>

fun seq :: "'c stmt list \<Rightarrow> 'c stmt" where
  "seq [] d = Done d"
| "seq (f # fs) d = (case f d of Done d' \<Rightarrow> seq fs d' | Raised e d' \<Rightarrow> Raised e d')"

definition raise_stmt :: "error \<Rightarrow> 'c stmt" where
  "raise_stmt e d = Raised e d"

subsection \<open>Answers\<close>

text \<open>
  An answer is a string or a flag; pexpect encodes it before writing, which for a flag
  goes through \<open>bool_y_n.encode\<close>.
\<close>

datatype answer = Str string | Flag bool_y_n

fun answer_text :: "answer \<Rightarrow> string" where
  "answer_text (Str s) = s"
| "answer_text (Flag b) = bool_y_n_encode b"

text \<open>
  \<open>print(x.decode('utf-8'))\<close> for an attribute \<open>x\<close> that is not \<open>None\<close>: the decoding may
  raise; standard output is taken to accept every text.
\<close>

definition print_decoded :: "string option \<Rightarrow> 'c stmt" where
  "print_decoded x d =
     (case x of
        None \<Rightarrow> Done d
      | Some bytes \<Rightarrow>
          (case decode_utf8 bytes of
             None \<Rightarrow> Raised UnicodeDecodeError d
           | Some t \<Rightarrow> Done (d\<lparr>stdout := stdout d @ [t]\<rparr>)))"

definition pexpect_line_answer ::
  "'c pexpect \<Rightarrow> pattern \<Rightarrow> answer option \<Rightarrow> 'c stmt" where
  "pexpect_line_answer px question answer d =
     (case script d of
        None \<Rightarrow> Raised AttributeError d
      | Some s \<Rightarrow>
          (case print_decoded (after s) d of
             Raised e d' \<Rightarrow> Raised e d'
           | Done d1 \<Rightarrow>
               let d2 = d1\<lparr>calls := calls d1 @ [Expect question]\<rparr>
               in (case expect px (timeout s) (child s) question of
                     Inl e \<Rightarrow> Raised (Pexpect e) d2
                   | Inr (c, b, a) \<Rightarrow>
                       let s1 = s\<lparr>child := c, before := b, after := a\<rparr>
                       in (case answer of
                             None \<Rightarrow> print_decoded b (d2\<lparr>script := Some s1\<rparr>)
                           | Some ans \<Rightarrow>
                               let d3 = d2\<lparr>calls := calls d2 @ [Sendline (answer_text ans)]\<rparr>
                               in (case sendline px c (answer_text ans) of
                                     Inl e \<Rightarrow> Raised (Pexpect e) (d3\<lparr>script := Some s1\<rparr>)
                                   | Inr c' \<Rightarrow>
                                       print_decoded b
                                         (d3\<lparr>script := Some (s1\<lparr>child := c'\<rparr>)\<rparr>))))))"

text \<open>
  Python evaluates the answer before the call, so a property that raises does so before
  the prompt is awaited.
\<close>

definition ask :: "'c pexpect \<Rightarrow> pattern \<Rightarrow> error + answer option \<Rightarrow> 'c stmt" where
  "ask px question answer d =
     (case answer of
        Inl e \<Rightarrow> Raised e d
      | Inr a \<Rightarrow> pexpect_line_answer px question a d)"

definition flag :: "bool_y_n \<Rightarrow> error + answer option" where
  "flag b = Inr (Some (Flag b))"

definition literal :: "string \<Rightarrow> error + answer option" where
  "literal s = Inr (Some (Str s))"

definition attr :: "string option \<Rightarrow> error + answer option" where
  "attr x = Inr (map_option Str x)"

definition property :: "error + string \<Rightarrow> error + answer option" where
  "property r = (case r of Inl e \<Rightarrow> Inl e | Inr s \<Rightarrow> Inr (Some (Str s)))"

definition no_answer :: "error + answer option" where
  "no_answer = Inr None"

subsection \<open>The prompts\<close>

definition bs :: char where
  "bs = CHR 0x5C"

definition q_python_bin :: pattern where
  "q_python_bin = Regex (''Please specify the location of python'' @ [bs] @ ''..*'')"

definition q_python_lib :: pattern where
  "q_python_lib =
     Regex (''Please input the desired Python library path to use'' @ [bs] @ ''..*'')"

definition q_jemalloc :: pattern where
  "q_jemalloc = Regex ''Do you wish to build TensorFlow with jemalloc as malloc support?.*''"

definition q_google_cloud_platform :: pattern where
  "q_google_cloud_platform =
     Regex ''Do you wish to build TensorFlow with Google Cloud Platform support?.*''"

definition q_hdfs :: pattern where
  "q_hdfs = Regex ''Do you wish to build TensorFlow with Hadoop File System support?.*''"

definition q_amazon_s3 :: pattern where
  "q_amazon_s3 =
     Regex ''Do you wish to build TensorFlow with Amazon S3 File System support?.*''"

definition q_kafka :: pattern where
  "q_kafka = Regex ''Do you wish to build TensorFlow with Apache Kafka Platform support?.*''"

definition q_xla_jit :: pattern where
  "q_xla_jit = Regex ''Do you wish to build TensorFlow with XLA JIT support?.*''"

definition q_gdr :: pattern where
  "q_gdr = Regex ''Do you wish to build TensorFlow with GDR support?.*''"

definition q_verbs :: pattern where
  "q_verbs = Regex ''Do you wish to build TensorFlow with VERBS support?.*''"

definition q_opencl_sycl :: pattern where
  "q_opencl_sycl = Regex ''Do you wish to build TensorFlow with OpenCL SYCL support?.*''"

definition q_cuda :: pattern where
  "q_cuda = Regex ''Do you wish to build TensorFlow with CUDA support?.*''"

definition q_cuda_version :: pattern where
  "q_cuda_version = Regex ''Please specify the CUDA SDK version you want to use.*''"

definition q_cuda_path :: pattern where
  "q_cuda_path =
     Regex (''Please specify the location where CUDA .* toolkit is installed'' @ [bs] @ ''..*'')"

definition q_cudnn_version :: pattern where
  "q_cudnn_version =
     Regex (''Please specify the cuDNN version you want to use'' @ [bs] @ ''..*'')"

definition q_cudnn_path :: pattern where
  "q_cudnn_path =
     Regex (''Please specify the location where cuDNN .* library is installed'' @ [bs] @ ''..*'')"

definition q_tensorrt :: pattern where
  "q_tensorrt = Regex ''Do you wish to build TensorFlow with TensorRT support?.*''"

definition q_tensorrt_path :: pattern where
  "q_tensorrt_path =
     Regex (''Please specify the location where TensorRT is installed'' @ [bs] @ ''..*'')"

definition q_nccl_version :: pattern where
  "q_nccl_version =
     Regex (''Please specify the NCCL version you want to use'' @ [bs] @ ''..*'')"

definition q_capabilities :: pattern where
  "q_capabilities =
     Regex (''Please specify a list of comma-separated Cuda compute capabilities you want to build with''
            @ [bs] @ ''..*'')"

definition q_clang :: pattern where
  "q_clang = Regex ''Do you want to use clang as CUDA compiler?.*''"

definition q_gcc_path :: pattern where
  "q_gcc_path =
     Regex (''Please specify which gcc should be used by nvcc as the host compiler''
            @ [bs] @ ''..*'')"

definition q_fresh_clang :: pattern where
  "q_fresh_clang = Regex ''Do you wish to download a fresh release of clang?.*''"

definition q_mpi :: pattern where
  "q_mpi = Regex ''Do you wish to build TensorFlow with MPI support?.*''"

definition q_mpi_path :: pattern where
  "q_mpi_path = Regex (''Please specify the MPI toolkit folder'' @ [bs] @ ''..*'')"

definition q_opts_flags :: pattern where
  "q_opts_flags =
     Regex ''Please specify optimization flags to use during compilation when bazel option.*''"

definition q_android :: pattern where
  "q_android =
     Regex (''Would you like to interactively configure '' @ [bs]
            @ ''./WORKSPACE for Android builds?.*'')"

definition q_finished :: pattern where
  "q_finished = Regex ''Configuration finished''"

subsection \<open>run\<close>

text \<open>
  \<open>pexpect.spawn\<close> returns an open object with pexpect's default timeout of 30 seconds;
  the script then sets the timeout to 2.
\<close>

definition spawn_script :: "'c pexpect \<Rightarrow> config \<Rightarrow> 'c stmt" where
  "spawn_script px cfg d =
     (let d1 = d\<lparr>calls := calls d @ [Spawn (command cfg)]\<rparr>
      in case spawn px (command cfg) of
           Inl e \<Rightarrow> Raised (Pexpect e) d1
         | Inr c \<Rightarrow>
             let s = \<lparr>child = c, timeout = 30, before = None, after = None, closed = False\<rparr>
             in Done (d1\<lparr>script := Some (s\<lparr>timeout := 2\<rparr>)\<rparr>))"

definition run :: "filesystem \<Rightarrow> 'c pexpect \<Rightarrow> config \<Rightarrow> 'c stmt" where
  "run fs px cfg =
     seq [
       spawn_script px cfg,
       ask px q_python_bin (property (python_bin_path fs cfg)),
       ask px q_python_lib (property (python_dist_path fs cfg)),
       ask px q_jemalloc (flag (with_jemalloc cfg)),
       ask px q_google_cloud_platform (flag (with_google_cloud_platform cfg)),
       ask px q_hdfs (flag (with_hdfs cfg)),
       ask px q_amazon_s3 (flag (with_amazon_s3 cfg)),
       ask px q_kafka (flag (with_kafka cfg)),
       ask px q_xla_jit (flag (with_xla_jit cfg)),
       ask px q_gdr (flag (with_gdr cfg)),
       ask px q_verbs (flag (with_verbs cfg)),
       ask px q_opencl_sycl (flag (with_opencl_sycl cfg)),
       ask px q_cuda (flag (with_cuda cfg)),
       (if bool_y_n_bool (with_cuda cfg) then
          seq [
            ask px q_cuda_version (attr (cuda_version cfg)),
            ask px q_cuda_path (attr (cuda_path cfg)),
            ask px q_cudnn_version (attr (cuda_cudnn_version cfg)),
            ask px q_cudnn_path (attr (cuda_cudnn_path cfg)),
            ask px q_tensorrt (flag (cuda_with_tensorrt cfg)),
            (if bool_y_n_bool (cuda_with_tensorrt cfg) then
               seq [ask px q_tensorrt_path (attr (cuda_tensorrt_path cfg))]
             else seq []),
            ask px q_nccl_version (attr (cuda_nccl_version cfg)),
            ask px q_capabilities (property (cuda_capabilities_str cfg)),
            ask px q_clang (flag (cuda_with_clang cfg)),
            (if bool_y_n_bool (cuda_with_clang cfg) then
               seq [raise_stmt (NotImplementedError ''cuda_with_clang=True is not implemented'')]
             else seq [ask px q_gcc_path (attr (cuda_gcc_path cfg))])
          ]
        else
          seq [ask px q_fresh_clang (flag (with_fresh_clang cfg))]),
       ask px q_mpi (flag (with_mpi cfg)),
       (if bool_y_n_bool (with_mpi cfg) then
          seq [ask px q_mpi_path (attr (mpi_path cfg))]
        else seq []),
       ask px q_opts_flags (literal (opts_flags_str cfg)),
       ask px q_android (literal ''N''),
       ask px q_finished no_answer,
       ask px Expect_EOF no_answer
     ]"

text \<open>
  The script's entry point after the command line is parsed: construct, then run on a
  fresh object (\<open>self.script = None\<close>, nothing printed, nothing called).
\<close>

definition fresh :: "'c driver" where
  "fresh = \<lparr>script = None, stdout = [], calls = []\<rparr>"

definition main :: "filesystem \<Rightarrow> 'c pexpect \<Rightarrow> params \<Rightarrow> 'c outcome" where
  "main fs px p =
     (case init fs p of
        Inl e \<Rightarrow> Raised e fresh
      | Inr cfg \<Rightarrow> run fs px cfg fresh)"

subsection \<open>Notions used to state the properties\<close>

text \<open>
  \<open>is_trim_of y x\<close>: \<open>y\<close> is \<open>x\<close> without its leading and its trailing whitespace, that is,
  \<open>x\<close> is \<open>y\<close> between two runs of whitespace and \<open>y\<close> neither starts nor ends with
  whitespace.
\<close>

definition is_trim_of :: "string \<Rightarrow> string \<Rightarrow> bool" where
  "is_trim_of y x =
     ((\<exists>a b. x = a @ y @ b \<and> list_all is_space a \<and> list_all is_space b)
      \<and> list_all (\<lambda>c. \<not> is_space c) (take 1 y @ take 1 (rev y)))"

text \<open>
  The sub-fields a GPU build requires, with the name each has in the source, and when
  one is unusable: it is not set or, for a path, it is set to a path that does not
  exist. The TensorRT path is required only when TensorRT is requested.
\<close>

datatype gpu_field =
    Cuda_version | Cuda_path | Cuda_cudnn_version | Cuda_cudnn_path
  | Cuda_nccl_version | Cuda_capabilities | Cuda_gcc_path | Cuda_tensorrt_path

fun field_name :: "gpu_field \<Rightarrow> string" where
  "field_name Cuda_version = ''cuda_version''"
| "field_name Cuda_path = ''cuda_path''"
| "field_name Cuda_cudnn_version = ''cuda_cudnn_version''"
| "field_name Cuda_cudnn_path = ''cuda_cudnn_path''"
| "field_name Cuda_nccl_version = ''cuda_nccl_version''"
| "field_name Cuda_capabilities = ''cuda_capabilities''"
| "field_name Cuda_gcc_path = ''cuda_gcc_path''"
| "field_name Cuda_tensorrt_path = ''cuda_tensorrt_path''"

definition no_such_path :: "filesystem \<Rightarrow> string option \<Rightarrow> bool" where
  "no_such_path fs x = (case x of None \<Rightarrow> True | Some path \<Rightarrow> \<not> fs path)"

fun field_bad :: "filesystem \<Rightarrow> params \<Rightarrow> gpu_field \<Rightarrow> bool" where
  "field_bad fs p Cuda_version = (cuda_version p = None)"
| "field_bad fs p Cuda_path = no_such_path fs (cuda_path p)"
| "field_bad fs p Cuda_cudnn_version = (cuda_cudnn_version p = None)"
| "field_bad fs p Cuda_cudnn_path = no_such_path fs (cuda_cudnn_path p)"
| "field_bad fs p Cuda_nccl_version = (cuda_nccl_version p = None)"
| "field_bad fs p Cuda_capabilities = (cuda_capabilities p = None)"
| "field_bad fs p Cuda_gcc_path = no_such_path fs (cuda_gcc_path p)"
| "field_bad fs p Cuda_tensorrt_path =
     (cuda_with_tensorrt p \<and> no_such_path fs (cuda_tensorrt_path p))"

text \<open>
  The checks of a GPU build in their order: first that each of seven sub-fields is
  set, then that the toolkit path, the cuDNN path and the host compiler path exist, then
  the TensorRT path when TensorRT is requested. Each check is paired with the sub-field
  it is about and tells whether it fails; the first unusable sub-field is that of the
  first failing check.
\<close>

definition gpu_checks :: "filesystem \<Rightarrow> params \<Rightarrow> (gpu_field \<times> bool) list" where
  "gpu_checks fs p =
     [(Cuda_version, cuda_version p = None),
      (Cuda_path, cuda_path p = None),
      (Cuda_cudnn_version, cuda_cudnn_version p = None),
      (Cuda_cudnn_path, cuda_cudnn_path p = None),
      (Cuda_nccl_version, cuda_nccl_version p = None),
      (Cuda_capabilities, cuda_capabilities p = None),
      (Cuda_gcc_path, cuda_gcc_path p = None),
      (Cuda_path, no_such_path fs (cuda_path p)),
      (Cuda_cudnn_path, no_such_path fs (cuda_cudnn_path p)),
      (Cuda_gcc_path, no_such_path fs (cuda_gcc_path p)),
      (Cuda_tensorrt_path, cuda_with_tensorrt p \<and> no_such_path fs (cuda_tensorrt_path p))]"

definition first_unusable :: "filesystem \<Rightarrow> params \<Rightarrow> gpu_field option" where
  "first_unusable fs p = map_option fst (find snd (gpu_checks fs p))"

text \<open>A message names a field when the field's name occurs in it.\<close>

definition names_field :: "string \<Rightarrow> gpu_field \<Rightarrow> bool" where
  "names_field msg f = sublist (field_name f) msg"

text \<open>
  The prompt sequence as a list of states, in the order of the design: each state awaits
  one prompt and has its answer, which is evaluated when the state is reached; the one
  unimplemented branch is a state that only raises.
\<close>

datatype step = Ask pattern "error + answer option" | Raise error

fun exec_step :: "'c pexpect \<Rightarrow> step \<Rightarrow> 'c stmt" where
  "exec_step px (Ask q a) = ask px q a"
| "exec_step px (Raise e) = raise_stmt e"

definition steps :: "filesystem \<Rightarrow> config \<Rightarrow> step list" where
  "steps fs cfg =
     [Ask q_python_bin (property (python_bin_path fs cfg)),
      Ask q_python_lib (property (python_dist_path fs cfg)),
      Ask q_jemalloc (flag (with_jemalloc cfg)),
      Ask q_google_cloud_platform (flag (with_google_cloud_platform cfg)),
      Ask q_hdfs (flag (with_hdfs cfg)),
      Ask q_amazon_s3 (flag (with_amazon_s3 cfg)),
      Ask q_kafka (flag (with_kafka cfg)),
      Ask q_xla_jit (flag (with_xla_jit cfg)),
      Ask q_gdr (flag (with_gdr cfg)),
      Ask q_verbs (flag (with_verbs cfg)),
      Ask q_opencl_sycl (flag (with_opencl_sycl cfg)),
      Ask q_cuda (flag (with_cuda cfg))]
     @ (if val (with_cuda cfg) then
          [Ask q_cuda_version (attr (cuda_version cfg)),
           Ask q_cuda_path (attr (cuda_path cfg)),
           Ask q_cudnn_version (attr (cuda_cudnn_version cfg)),
           Ask q_cudnn_path (attr (cuda_cudnn_path cfg)),
           Ask q_tensorrt (flag (cuda_with_tensorrt cfg))]
          @ (if val (cuda_with_tensorrt cfg)
             then [Ask q_tensorrt_path (attr (cuda_tensorrt_path cfg))] else [])
          @ [Ask q_nccl_version (attr (cuda_nccl_version cfg)),
             Ask q_capabilities (property (cuda_capabilities_str cfg)),
             Ask q_clang (flag (cuda_with_clang cfg))]
          @ (if val (cuda_with_clang cfg)
             then [Raise (NotImplementedError ''cuda_with_clang=True is not implemented'')]
             else [Ask q_gcc_path (attr (cuda_gcc_path cfg))])
        else [Ask q_fresh_clang (flag (with_fresh_clang cfg))])
     @ [Ask q_mpi (flag (with_mpi cfg))]
     @ (if val (with_mpi cfg) then [Ask q_mpi_path (attr (mpi_path cfg))] else [])
     @ [Ask q_opts_flags (literal (opts_flags_str cfg)),
        Ask q_android (literal ''N''),
        Ask q_finished no_answer,
        Ask Expect_EOF no_answer]"

text \<open>
  The calls a state makes when nothing fails: it awaits its prompt and, when it has an
  answer, sends it; a state whose answer cannot be evaluated, or that only raises, makes
  none.
\<close>

fun step_calls :: "step \<Rightarrow> call list" where
  "step_calls (Ask q (Inr None)) = [Expect q]"
| "step_calls (Ask q (Inr (Some a))) = [Expect q, Sendline (answer_text a)]"
| "step_calls (Ask q (Inl e)) = []"
| "step_calls (Raise e) = []"

text \<open>What a state raises by itself, if anything.\<close>

fun step_error :: "step \<Rightarrow> error option" where
  "step_error (Ask q (Inl e)) = Some e"
| "step_error (Ask q (Inr a)) = None"
| "step_error (Raise e) = Some e"

text \<open>
  The calls of a list of states when the child never fails: those of each state up to
  the first state that raises by itself.
\<close>

fun planned_calls :: "step list \<Rightarrow> call list" where
  "planned_calls [] = []"
| "planned_calls (st # ss) =
     (if step_error st = None then step_calls st @ planned_calls ss else [])"

text \<open>The prompt a state awaits.\<close>

fun step_prompts :: "step \<Rightarrow> pattern list" where
  "step_prompts (Ask q a) = [q]"
| "step_prompts (Raise e) = []"

text \<open>The prompts awaited, in order, among the calls made.\<close>

fun awaited :: "call list \<Rightarrow> pattern list" where
  "awaited [] = []"
| "awaited (Expect q # cs) = q # awaited cs"
| "awaited (c # cs) = awaited cs"

text \<open>
  The prompts of a complete run as a function of the four flags \<open>run\<close> branches on: GPU,
  TensorRT, MPI and clang as CUDA compiler.
\<close>

definition prompt_sequence :: "bool \<Rightarrow> bool \<Rightarrow> bool \<Rightarrow> bool \<Rightarrow> pattern list" where
  "prompt_sequence gpu tensorrt mpi clang =
     [q_python_bin, q_python_lib, q_jemalloc, q_google_cloud_platform, q_hdfs, q_amazon_s3,
      q_kafka, q_xla_jit, q_gdr, q_verbs, q_opencl_sycl, q_cuda]
     @ (if gpu then
          [q_cuda_version, q_cuda_path, q_cudnn_version, q_cudnn_path, q_tensorrt]
          @ (if tensorrt then [q_tensorrt_path] else [])
          @ [q_nccl_version, q_capabilities, q_clang]
          @ (if clang then [] else [q_gcc_path])
        else [q_fresh_clang])
     @ [q_mpi]
     @ (if mpi then [q_mpi_path] else [])
     @ [q_opts_flags, q_android, q_finished, Expect_EOF]"

text \<open>
  What the child goes through when the calls of a list reach it in order, the prompts
  awaited with timeout \<open>t\<close>: the state it ends in, or the error of the first call that
  fails. No child is there before the spawn, and awaiting or writing without one is the
  AttributeError of \<open>None\<close>.
\<close>

fun replay :: "'c pexpect \<Rightarrow> nat \<Rightarrow> call list \<Rightarrow> 'c option \<Rightarrow> error + 'c option" where
  "replay px t [] c = Inr c"
| "replay px t (Spawn cmd # cs) c =
     (case spawn px cmd of Inl e \<Rightarrow> Inl (Pexpect e) | Inr c' \<Rightarrow> replay px t cs (Some c'))"
| "replay px t (Expect q # cs) None = Inl AttributeError"
| "replay px t (Expect q # cs) (Some c) =
     (case expect px t c q of
        Inl e \<Rightarrow> Inl (Pexpect e)
      | Inr (c', b, a) \<Rightarrow> replay px t cs (Some c'))"
| "replay px t (Sendline line # cs) None = Inl AttributeError"
| "replay px t (Sendline line # cs) (Some c) =
     (case sendline px c line of
        Inl e \<Rightarrow> Inl (Pexpect e)
      | Inr c' \<Rightarrow> replay px t cs (Some c'))"

text \<open>Output that can be printed: none, or bytes that are valid UTF-8.\<close>

definition decodes :: "string option \<Rightarrow> bool" where
  "decodes x = (case x of None \<Rightarrow> True | Some bytes \<Rightarrow> decode_utf8 bytes \<noteq> None)"

text \<open>
  A child that never fails the script: the command starts, every awaited prompt comes
  in time with output that is valid UTF-8, and every line is accepted.
\<close>

definition cooperative :: "'c pexpect \<Rightarrow> bool" where
  "cooperative px =
     ((\<forall>cmd. \<exists>c. spawn px cmd = Inr c)
      \<and> (\<forall>t c q. \<exists>c' b a. expect px t c q = Inr (c', b, a) \<and> decodes b \<and> decodes a)
      \<and> (\<forall>c line. \<exists>c'. sendline px c line = Inr c'))"

text \<open>
  The minimal configuration: every feature flag off, no GPU, no fresh clang, no MPI, no
  optimization flags.
\<close>

definition minimal :: "params \<Rightarrow> bool" where
  "minimal p =
     (\<not> (with_jemalloc p \<or> with_google_cloud_platform p \<or> with_hdfs p \<or> with_amazon_s3 p
         \<or> with_kafka p \<or> with_xla_jit p \<or> with_gdr p \<or> with_verbs p \<or> with_opencl_sycl p
         \<or> with_cuda p \<or> with_fresh_clang p \<or> with_mpi p)
      \<and> opts_flags p = None)"

text \<open>
  The calls of a run of the minimal configuration, given the command and the two
  interpreter paths: the two interpreter prompts, nine feature prompts answered \<open>N\<close>,
  the GPU prompt answered \<open>N\<close>, the fresh clang prompt answered \<open>N\<close>, the MPI prompt
  answered \<open>N\<close>, the optimization flags answered with the empty string, the Android
  prompt answered \<open>N\<close>, then the completion marker and the end of the output.
\<close>

definition minimal_calls :: "string \<Rightarrow> string \<Rightarrow> string \<Rightarrow> call list" where
  "minimal_calls cmd bin lib =
     [Spawn cmd,
      Expect q_python_bin, Sendline bin,
      Expect q_python_lib, Sendline lib,
      Expect q_jemalloc, Sendline ''N'',
      Expect q_google_cloud_platform, Sendline ''N'',
      Expect q_hdfs, Sendline ''N'',
      Expect q_amazon_s3, Sendline ''N'',
      Expect q_kafka, Sendline ''N'',
      Expect q_xla_jit, Sendline ''N'',
      Expect q_gdr, Sendline ''N'',
      Expect q_verbs, Sendline ''N'',
      Expect q_opencl_sycl, Sendline ''N'',
      Expect q_cuda, Sendline ''N'',
      Expect q_fresh_clang, Sendline ''N'',
      Expect q_mpi, Sendline ''N'',
      Expect q_opts_flags, Sendline [],
      Expect q_android, Sendline ''N'',
      Expect q_finished,
      Expect Expect_EOF]"

subsection \<open>Concrete inputs\<close>

text \<open>
  What the command line \<open>configure-expect.py ./configure 3.6\<close> gives the constructor:
  every switch off, every option absent.
\<close>

definition minimal_params :: params where
  "minimal_params =
     \<lparr> command = ''./configure'',
       python_version = ''3.6'',
       with_jemalloc = False,
       with_google_cloud_platform = False,
       with_hdfs = False,
       with_amazon_s3 = False,
       with_kafka = False,
       with_xla_jit = False,
       with_gdr = False,
       with_verbs = False,
       with_opencl_sycl = False,
       with_cuda = False,
       with_fresh_clang = False,
       with_mpi = False,
       cuda_version = None,
       cuda_path = None,
       cuda_cudnn_version = None,
       cuda_cudnn_path = None,
       cuda_with_tensorrt = False,
       cuda_tensorrt_path = None,
       cuda_nccl_version = None,
       cuda_capabilities = None,
       cuda_with_clang = False,
       cuda_gcc_path = None,
       mpi_path = None,
       opts_flags = None \<rparr>"

text \<open>A machine with the configure script, Python 3.6, CUDA, TensorRT, gcc and MPI.\<close>

definition example_fs :: filesystem where
  "example_fs path =
     (path \<in> set [''./configure'', ''/usr/bin/python3.6'', ''/usr/lib/python3/dist-packages'',
                   ''/usr/local/cuda'', ''/usr/lib/x86_64-linux-gnu'', ''/usr/bin/gcc'', ''/usr''])"

text \<open>A machine on which nothing of the above is missing but the configure script.\<close>

definition no_script_fs :: filesystem where
  "no_script_fs path = (path \<noteq> ''./configure'' \<and> example_fs path)"

text \<open>A GPU build with TensorRT, every path present on \<open>example_fs\<close>.\<close>

definition gpu_params :: params where
  "gpu_params =
     minimal_params
       \<lparr> with_cuda := True,
         cuda_version := Some ''9.0'',
         cuda_path := Some ''/usr/local/cuda'',
         cuda_cudnn_version := Some ''7.0'',
         cuda_cudnn_path := Some ''/usr/local/cuda'',
         cuda_with_tensorrt := True,
         cuda_tensorrt_path := Some ''/usr/lib/x86_64-linux-gnu'',
         cuda_nccl_version := Some ''1.3'',
         cuda_capabilities := Some [''3.5'', '' 5.2 ''],
         cuda_gcc_path := Some ''/usr/bin/gcc'' \<rparr>"

text \<open>
  A child that shows every prompt and accepts every line; its state counts the lines
  it has received.
\<close>

definition obliging :: "nat pexpect" where
  "obliging =
     \<lparr> spawn = (\<lambda>cmd. Inr 0),
       expect = (\<lambda>t c q. Inr (c, Some ''output'', Some ''prompt'')),
       sendline = (\<lambda>c line. Inr (Suc c)) \<rparr>"

text \<open>
  A child that exits after its first prompt; its state counts the prompts it has shown.
\<close>

definition exits_early :: "nat pexpect" where
  "exits_early =
     \<lparr> spawn = (\<lambda>cmd. Inr 0),
       expect = (\<lambda>t c q. if c = 0 then Inr (Suc c, Some ''output'', Some ''prompt'') else Inl EOF),
       sendline = (\<lambda>c line. Inr c) \<rparr>"

text \<open>
  A child that shows every prompt and accepts every line, and whose state is the list of
  the calls that have reached it.
\<close>

definition recording :: "call list pexpect" where
  "recording =
     \<lparr> spawn = (\<lambda>cmd. Inr [Spawn cmd]),
       expect = (\<lambda>t c q. Inr (c @ [Expect q], Some ''output'', Some ''prompt'')),
       sendline = (\<lambda>c line. Inr (c @ [Sendline line])) \<rparr>"

text \<open>A child that starts and then shows nothing: every wait times out.\<close>

definition silent :: "nat pexpect" where
  "silent =
     \<lparr> spawn = (\<lambda>cmd. Inr 0),
       expect = (\<lambda>t c q. Inl TIMEOUT),
       sendline = (\<lambda>c line. Inr (Suc c)) \<rparr>"

text \<open>
  A child that shows every prompt but whose output is the single byte 0xFF, which is not
  valid UTF-8.
\<close>

definition garbled :: "nat pexpect" where
  "garbled =
     \<lparr> spawn = (\<lambda>cmd. Inr 0),
       expect = (\<lambda>t c q. Inr (c, Some [CHR 0xFF], Some ''prompt'')),
       sendline = (\<lambda>c line. Inr (Suc c)) \<rparr>"

section \<open>Properties\<close>

subsection \<open>strip\<close>

lemma strip_split:
  "dropWhile is_space s = strip s @ rev (takeWhile is_space (rev (dropWhile is_space s)))"
proof -
  let ?m = "dropWhile is_space s"
  have "rev ?m = takeWhile is_space (rev ?m) @ dropWhile is_space (rev ?m)" by simp
  then have "rev (rev ?m) = rev (takeWhile is_space (rev ?m) @ dropWhile is_space (rev ?m))"
    by (rule arg_cong)
  then show ?thesis unfolding strip_def rev_append rev_rev_ident .
qed

lemma strip_decomp:
  "\<exists>a b. s = a @ strip s @ b \<and> list_all is_space a \<and> list_all is_space b"
proof -
  let ?a = "takeWhile is_space s"
  let ?m = "dropWhile is_space s"
  let ?b = "rev (takeWhile is_space (rev ?m))"
  have "s = ?a @ ?m" by simp
  then have "s = ?a @ strip s @ ?b" using strip_split [of s] by simp
  moreover have "list_all is_space ?a" by (auto simp: list_all_iff dest: set_takeWhileD)
  moreover have "list_all is_space ?b" by (auto simp: list_all_iff dest: set_takeWhileD)
  ultimately show ?thesis by blast
qed

lemma hd_of_prefix: "xs = ys @ zs \<Longrightarrow> ys \<noteq> [] \<Longrightarrow> xs \<noteq> [] \<and> hd xs = hd ys"
  by auto

lemma strip_hd: "strip s \<noteq> [] \<Longrightarrow> \<not> is_space (hd (strip s))"
proof -
  assume ne: "strip s \<noteq> []"
  let ?m = "dropWhile is_space s"
  have m: "?m \<noteq> [] \<and> hd ?m = hd (strip s)"
    using strip_split [of s] ne by (rule hd_of_prefix)
  then have "\<not> is_space (hd ?m)" using hd_dropWhile [of is_space s] by blast
  with m show ?thesis by simp
qed

lemma strip_last: "strip s \<noteq> [] \<Longrightarrow> \<not> is_space (last (strip s))"
  unfolding strip_def
  by (metis hd_dropWhile last_rev rev_is_Nil_conv)

lemma strip_ends: "list_all (\<lambda>c. \<not> is_space c) (take 1 (strip s) @ take 1 (rev (strip s)))"
proof (cases "strip s")
  case Nil
  then show ?thesis by simp
next
  case (Cons c cs)
  then have ne: "strip s \<noteq> []" by simp
  have "take 1 (strip s) = [hd (strip s)]" using ne by (cases "strip s") simp_all
  moreover have "take 1 (rev (strip s)) = [last (strip s)]"
    using ne by (cases "strip s" rule: rev_cases) simp_all
  ultimately show ?thesis using strip_hd [OF ne] strip_last [OF ne] by simp
qed

lemma strip_is_trim: "is_trim_of (strip s) s"
  unfolding is_trim_of_def using strip_decomp [of s] strip_ends [of s] by blast

lemma strips_are_trims: "list_all2 is_trim_of (map strip xs) xs"
  by (induction xs) (simp_all add: strip_is_trim)

subsection \<open>Rendering of the answers\<close>

text \<open>
  C7. The serialization of a flag is total and stable: for every boolean the wrapper
  renders as one character, \<open>Y\<close> for \<open>True\<close> and \<open>N\<close> for \<open>False\<close>, whether through
  \<open>__repr__\<close>, \<open>__str__\<close> or \<open>encode\<close>, and wrapping the truth value of a wrapper again
  renders the same.
\<close>

theorem bool_y_n_renders_Y_or_N:
  "bool_y_n_str (Bool_y_n True) = ''Y''
   \<and> bool_y_n_str (Bool_y_n False) = ''N''
   \<and> length (bool_y_n_str (Bool_y_n b)) = 1
   \<and> bool_y_n_repr (Bool_y_n b) = bool_y_n_str (Bool_y_n b)
   \<and> bool_y_n_encode (Bool_y_n b) = bool_y_n_str (Bool_y_n b)
   \<and> bool_y_n_str (Bool_y_n (bool_y_n_bool (Bool_y_n b))) = bool_y_n_str (Bool_y_n b)"
  by (simp add: bool_y_n_str_def bool_y_n_repr_def bool_y_n_encode_def bool_y_n_bool_def)

text \<open>
  C6, as stated, at its own input: the flags \<open>[" -march=native", " -mavx2"]\<close> are not
  rendered as \<open>" -march=native  -mavx2"\<close>.
\<close>

theorem opts_flags_str_counterexample:
  "opts_flags_str (store (minimal_params\<lparr>opts_flags := Some ['' -march=native'', '' -mavx2'']\<rparr>))
     \<noteq> '' -march=native  -mavx2''"
  by (simp add: opts_flags_str_def store_def strip_def is_space_def)

text \<open>
  C6, amended. \<open>opts_flags_str\<close> is the empty string when no flags were supplied;
  otherwise it joins, with one space, the flags each without its leading and trailing
  whitespace; on \<open>[" -march=native", " -mavx2"]\<close> it is \<open>"-march=native -mavx2"\<close>.
\<close>

theorem opts_flags_str_trims_and_joins:
  "(opts_flags cfg = None \<longrightarrow> opts_flags_str cfg = '''')
   \<and> (\<forall>xs. opts_flags cfg = Some xs \<longrightarrow>
          (\<exists>ys. list_all2 is_trim_of ys xs \<and> opts_flags_str cfg = join_str '' '' ys))
   \<and> opts_flags_str (cfg\<lparr>opts_flags := Some ['' -march=native'', '' -mavx2'']\<rparr>)
       = ''-march=native -mavx2''"
proof (intro conjI allI impI)
  show "opts_flags_str (cfg\<lparr>opts_flags := Some ['' -march=native'', '' -mavx2'']\<rparr>)
       = ''-march=native -mavx2''"
    by (simp add: opts_flags_str_def strip_def is_space_def)
next
  assume "opts_flags cfg = None" then show "opts_flags_str cfg = ''''"
    by (simp add: opts_flags_str_def)
next
  fix xs assume "opts_flags cfg = Some xs"
  then have "opts_flags_str cfg = join_str '' '' (map strip xs)"
    by (simp add: opts_flags_str_def)
  with strips_are_trims [of xs]
  show "\<exists>ys. list_all2 is_trim_of ys xs \<and> opts_flags_str cfg = join_str '' '' ys" by blast
qed

theorem opts_flags_str_trims_and_joins_witness:
  "opts_flags (store minimal_params) = None \<and> opts_flags_str (store minimal_params) = ''''
   \<and> opts_flags (store (minimal_params\<lparr>opts_flags := Some [''-O2 '']\<rparr>)) = Some [''-O2 '']
   \<and> (\<exists>ys. list_all2 is_trim_of ys [''-O2 '']
           \<and> opts_flags_str (store (minimal_params\<lparr>opts_flags := Some [''-O2 '']\<rparr>)) = join_str '' '' ys)"
proof -
  have a: "opts_flags (store minimal_params) = None" by (simp add: store_def minimal_params_def)
  have b: "opts_flags (store (minimal_params\<lparr>opts_flags := Some [''-O2 '']\<rparr>)) = Some [''-O2 '']"
    by (simp add: store_def)
  show ?thesis
    using a b opts_flags_str_trims_and_joins [of "store minimal_params"]
      opts_flags_str_trims_and_joins [of "store (minimal_params\<lparr>opts_flags := Some [''-O2 '']\<rparr>)"]
    by blast
qed

text \<open>
  C8. \<open>cuda_capabilities_str\<close> joins, with commas, the capabilities each without its
  surrounding whitespace; on \<open>["3.5", " 5.2 "]\<close> it is \<open>"3.5,5.2"\<close>.
\<close>

theorem cuda_capabilities_str_trims_and_joins:
  "(\<forall>xs. cuda_capabilities cfg = Some xs \<longrightarrow>
      (\<exists>ys. list_all2 is_trim_of ys xs \<and> cuda_capabilities_str cfg = Inr (join_str '','' ys)))
   \<and> cuda_capabilities_str (cfg\<lparr>cuda_capabilities := Some [''3.5'', '' 5.2 '']\<rparr>) = Inr ''3.5,5.2''"
proof (intro conjI allI impI)
  show "cuda_capabilities_str (cfg\<lparr>cuda_capabilities := Some [''3.5'', '' 5.2 '']\<rparr>) = Inr ''3.5,5.2''"
    by (simp add: cuda_capabilities_str_def strip_def is_space_def)
next
  fix xs assume "cuda_capabilities cfg = Some xs"
  then have "cuda_capabilities_str cfg = Inr (join_str '','' (map strip xs))"
    by (simp add: cuda_capabilities_str_def)
  with strips_are_trims [of xs]
  show "\<exists>ys. list_all2 is_trim_of ys xs \<and> cuda_capabilities_str cfg = Inr (join_str '','' ys)"
    by blast
qed

theorem cuda_capabilities_str_trims_and_joins_witness:
  "cuda_capabilities (store (minimal_params\<lparr>cuda_capabilities := Some [''3.5'', '' 5.2 '']\<rparr>))
     = Some [''3.5'', '' 5.2 '']
   \<and> (\<exists>ys. list_all2 is_trim_of ys [''3.5'', '' 5.2 '']
         \<and> cuda_capabilities_str (store (minimal_params\<lparr>cuda_capabilities := Some [''3.5'', '' 5.2 '']\<rparr>))
             = Inr (join_str '','' ys))"
proof -
  have a: "cuda_capabilities (store (minimal_params\<lparr>cuda_capabilities := Some [''3.5'', '' 5.2 '']\<rparr>))
     = Some [''3.5'', '' 5.2 '']" by (simp add: store_def)
  show ?thesis
    using a cuda_capabilities_str_trims_and_joins
      [of "store (minimal_params\<lparr>cuda_capabilities := Some [''3.5'', '' 5.2 '']\<rparr>)"]
    by blast
qed

subsection \<open>The constructor's checks\<close>

lemma message_names:
  "names_field ''cuda_version must be set if with_cuda=True'' h \<longleftrightarrow> h = Cuda_version"
  "names_field ''cuda_path must be set if with_cuda=True'' h \<longleftrightarrow> h = Cuda_path"
  "names_field ''cuda_cudnn_version must be set if with_cuda=True'' h \<longleftrightarrow> h = Cuda_cudnn_version"
  "names_field ''cuda_cudnn_path must be set if with_cuda=True'' h \<longleftrightarrow> h = Cuda_cudnn_path"
  "names_field ''cuda_nccl_version must be set if with_cuda=True'' h \<longleftrightarrow> h = Cuda_nccl_version"
  "names_field ''cuda_capabilities must be set if with_cuda=True'' h \<longleftrightarrow> h = Cuda_capabilities"
  "names_field ''cuda_gcc_path must be set if with_cuda=True'' h \<longleftrightarrow> h = Cuda_gcc_path"
  "names_field ''cuda_path is set a non existing folder'' h \<longleftrightarrow> h = Cuda_path"
  "names_field ''cuda_cudnn_path is set a non existing folder'' h \<longleftrightarrow> h = Cuda_cudnn_path"
  "names_field ''cuda_gcc_path must be set if cuda_with_clang=True'' h \<longleftrightarrow> h = Cuda_gcc_path"
  "names_field ''cuda_gcc_path is set a non existing file'' h \<longleftrightarrow> h = Cuda_gcc_path"
  "names_field ''cuda_tensorrt_path must be set if cuda_with_tensorrt=True'' h \<longleftrightarrow> h = Cuda_tensorrt_path"
  "names_field ''cuda_tensorrt_path is set a non existing folder'' h \<longleftrightarrow> h = Cuda_tensorrt_path"
  by (cases h; simp add: names_field_def sublist_Cons_right)+

lemma fails_naming:
  "r = Inl (AssertionError msg) \<Longrightarrow> field_bad fs p g \<Longrightarrow> \<forall>h. names_field msg h \<longleftrightarrow> h = g \<Longrightarrow>
   first_unusable fs p = Some g \<Longrightarrow>
   \<exists>g msg. r = Inl (AssertionError msg) \<and> field_bad fs p g
     \<and> (\<forall>h. names_field msg h \<longleftrightarrow> h = g) \<and> first_unusable fs p = Some g"
  by blast

lemma check_cuda_cases:
  assumes "with_cuda p" "\<not> cuda_with_clang p"
  shows "(check_cuda fs p = Inr () \<and> (\<forall>f. \<not> field_bad fs p f) \<and> first_unusable fs p = None)
   \<or> (\<exists>g msg. check_cuda fs p = Inl (AssertionError msg) \<and> field_bad fs p g
          \<and> (\<forall>h. names_field msg h \<longleftrightarrow> h = g) \<and> first_unusable fs p = Some g)"
proof -
  consider (a) "cuda_version p = None"
    | (b) cv where "cuda_version p = Some cv" "cuda_path p = None"
    | (c) cv cp where "cuda_version p = Some cv" "cuda_path p = Some cp" "cuda_cudnn_version p = None"
    | (d) cv cp dv where "cuda_version p = Some cv" "cuda_path p = Some cp"
        "cuda_cudnn_version p = Some dv" "cuda_cudnn_path p = None"
    | (e) cv cp dv dp where "cuda_version p = Some cv" "cuda_path p = Some cp"
        "cuda_cudnn_version p = Some dv" "cuda_cudnn_path p = Some dp" "cuda_nccl_version p = None"
    | (f) cv cp dv dp nv where "cuda_version p = Some cv" "cuda_path p = Some cp"
        "cuda_cudnn_version p = Some dv" "cuda_cudnn_path p = Some dp"
        "cuda_nccl_version p = Some nv" "cuda_capabilities p = None"
    | (g) cv cp dv dp nv caps where "cuda_version p = Some cv" "cuda_path p = Some cp"
        "cuda_cudnn_version p = Some dv" "cuda_cudnn_path p = Some dp"
        "cuda_nccl_version p = Some nv" "cuda_capabilities p = Some caps" "cuda_gcc_path p = None"
    | (h) cv cp dv dp nv caps gp where "cuda_version p = Some cv" "cuda_path p = Some cp"
        "cuda_cudnn_version p = Some dv" "cuda_cudnn_path p = Some dp"
        "cuda_nccl_version p = Some nv" "cuda_capabilities p = Some caps" "cuda_gcc_path p = Some gp"
    by (cases "cuda_version p"; cases "cuda_path p"; cases "cuda_cudnn_version p";
        cases "cuda_cudnn_path p"; cases "cuda_nccl_version p"; cases "cuda_capabilities p";
        cases "cuda_gcc_path p") auto
  then show ?thesis
  proof cases
    case a
    have "\<exists>g msg. check_cuda fs p = Inl (AssertionError msg) \<and> field_bad fs p g
              \<and> (\<forall>h. names_field msg h \<longleftrightarrow> h = g) \<and> first_unusable fs p = Some g"
      by (rule fails_naming [where g = Cuda_version], (simp add: check_cuda_def check_gcc_def check_tensorrt_def first_unusable_def gpu_checks_def no_such_path_def message_names assms a)+)
    then show ?thesis ..
  next
    case b
    have "\<exists>g msg. check_cuda fs p = Inl (AssertionError msg) \<and> field_bad fs p g
              \<and> (\<forall>h. names_field msg h \<longleftrightarrow> h = g) \<and> first_unusable fs p = Some g"
      by (rule fails_naming [where g = Cuda_path], (simp add: check_cuda_def check_gcc_def check_tensorrt_def first_unusable_def gpu_checks_def no_such_path_def message_names assms b)+)
    then show ?thesis ..
  next
    case c
    have "\<exists>g msg. check_cuda fs p = Inl (AssertionError msg) \<and> field_bad fs p g
              \<and> (\<forall>h. names_field msg h \<longleftrightarrow> h = g) \<and> first_unusable fs p = Some g"
      by (rule fails_naming [where g = Cuda_cudnn_version], (simp add: check_cuda_def check_gcc_def check_tensorrt_def first_unusable_def gpu_checks_def no_such_path_def message_names assms c)+)
    then show ?thesis ..
  next
    case d
    have "\<exists>g msg. check_cuda fs p = Inl (AssertionError msg) \<and> field_bad fs p g
              \<and> (\<forall>h. names_field msg h \<longleftrightarrow> h = g) \<and> first_unusable fs p = Some g"
      by (rule fails_naming [where g = Cuda_cudnn_path], (simp add: check_cuda_def check_gcc_def check_tensorrt_def first_unusable_def gpu_checks_def no_such_path_def message_names assms d)+)
    then show ?thesis ..
  next
    case e
    have "\<exists>g msg. check_cuda fs p = Inl (AssertionError msg) \<and> field_bad fs p g
              \<and> (\<forall>h. names_field msg h \<longleftrightarrow> h = g) \<and> first_unusable fs p = Some g"
      by (rule fails_naming [where g = Cuda_nccl_version], (simp add: check_cuda_def check_gcc_def check_tensorrt_def first_unusable_def gpu_checks_def no_such_path_def message_names assms e)+)
    then show ?thesis ..
  next
    case f
    have "\<exists>g msg. check_cuda fs p = Inl (AssertionError msg) \<and> field_bad fs p g
              \<and> (\<forall>h. names_field msg h \<longleftrightarrow> h = g) \<and> first_unusable fs p = Some g"
      by (rule fails_naming [where g = Cuda_capabilities], (simp add: check_cuda_def check_gcc_def check_tensorrt_def first_unusable_def gpu_checks_def no_such_path_def message_names assms f)+)
    then show ?thesis ..
  next
    case g
    have "\<exists>g msg. check_cuda fs p = Inl (AssertionError msg) \<and> field_bad fs p g
              \<and> (\<forall>h. names_field msg h \<longleftrightarrow> h = g) \<and> first_unusable fs p = Some g"
      by (rule fails_naming [where g = Cuda_gcc_path], (simp add: check_cuda_def check_gcc_def check_tensorrt_def first_unusable_def gpu_checks_def no_such_path_def message_names assms g)+)
    then show ?thesis ..
  next
    case h
    show ?thesis
    proof (cases "fs cp")
      case False
      have "\<exists>g msg. check_cuda fs p = Inl (AssertionError msg) \<and> field_bad fs p g
                \<and> (\<forall>h. names_field msg h \<longleftrightarrow> h = g) \<and> first_unusable fs p = Some g"
        by (rule fails_naming [where g = Cuda_path], (simp add: check_cuda_def check_gcc_def check_tensorrt_def first_unusable_def gpu_checks_def no_such_path_def message_names assms h False)+)
      then show ?thesis ..
    next
      case cp: True
      show ?thesis
      proof (cases "fs dp")
        case False
        have "\<exists>g msg. check_cuda fs p = Inl (AssertionError msg) \<and> field_bad fs p g
                  \<and> (\<forall>h. names_field msg h \<longleftrightarrow> h = g) \<and> first_unusable fs p = Some g"
          by (rule fails_naming [where g = Cuda_cudnn_path], (simp add: check_cuda_def check_gcc_def check_tensorrt_def first_unusable_def gpu_checks_def no_such_path_def message_names assms h cp False)+)
        then show ?thesis ..
      next
        case dp: True
        show ?thesis
        proof (cases "fs gp")
          case False
          have "\<exists>g msg. check_cuda fs p = Inl (AssertionError msg) \<and> field_bad fs p g
                    \<and> (\<forall>h. names_field msg h \<longleftrightarrow> h = g) \<and> first_unusable fs p = Some g"
            by (rule fails_naming [where g = Cuda_gcc_path], (simp add: check_cuda_def check_gcc_def check_tensorrt_def first_unusable_def gpu_checks_def no_such_path_def message_names assms h cp dp False)+)
          then show ?thesis ..
        next
          case gp: True
          show ?thesis
          proof (cases "cuda_with_tensorrt p")
            case False
            have "\<not> field_bad fs p f" for f
              by (cases f) (simp_all add: no_such_path_def h cp dp gp False)
            moreover have "check_cuda fs p = Inr ()"
              by (simp add: check_cuda_def check_gcc_def check_tensorrt_def assms h cp dp gp False)
            moreover have "first_unusable fs p = None"
              by (simp add: first_unusable_def gpu_checks_def no_such_path_def h cp dp gp False)
            ultimately show ?thesis by blast
          next
            case trt: True
            show ?thesis
            proof (cases "cuda_tensorrt_path p")
              case None
              have "\<exists>g msg. check_cuda fs p = Inl (AssertionError msg) \<and> field_bad fs p g
                        \<and> (\<forall>h. names_field msg h \<longleftrightarrow> h = g) \<and> first_unusable fs p = Some g"
                by (rule fails_naming [where g = Cuda_tensorrt_path], (simp add: check_cuda_def check_gcc_def check_tensorrt_def first_unusable_def gpu_checks_def no_such_path_def message_names assms h cp dp gp trt None)+)
              then show ?thesis ..
            next
              case (Some tp)
              show ?thesis
              proof (cases "fs tp")
                case False
                have "\<exists>g msg. check_cuda fs p = Inl (AssertionError msg) \<and> field_bad fs p g
                          \<and> (\<forall>h. names_field msg h \<longleftrightarrow> h = g) \<and> first_unusable fs p = Some g"
                  by (rule fails_naming [where g = Cuda_tensorrt_path], (simp add: check_cuda_def check_gcc_def check_tensorrt_def first_unusable_def gpu_checks_def no_such_path_def message_names assms h cp dp gp trt Some False)+)
                then show ?thesis ..
              next
                case tp: True
                have "\<not> field_bad fs p f" for f
                  by (cases f) (simp_all add: no_such_path_def h cp dp gp trt Some tp)
                moreover have "check_cuda fs p = Inr ()"
                  by (simp add: check_cuda_def check_gcc_def check_tensorrt_def assms h cp dp gp trt Some tp)
                moreover have "first_unusable fs p = None"
                  by (simp add: first_unusable_def gpu_checks_def no_such_path_def h cp dp gp trt Some tp)
                ultimately show ?thesis by blast
              qed
            qed
          qed
        qed
      qed
    qed
  qed
qed

lemma init_with_cuda:
  assumes "fs (command p)" "\<not> with_opencl_sycl p" "\<not> cuda_with_clang p"
  shows "init fs p = (case check_cuda fs p of Inl e \<Rightarrow> Inl e
           | Inr _ \<Rightarrow> (case check_mpi fs p of Inl e \<Rightarrow> Inl e | Inr _ \<Rightarrow> Inr (store p)))"
  using assms by (simp add: init_def)

lemma main_of_init_error: "init fs p = Inl e \<Longrightarrow> main fs px p = Raised e fresh"
  by (simp add: main_def)

lemma calls_fresh: "calls (final (Raised e fresh)) = []"
  by (simp add: fresh_def)

text \<open>
  C2, as stated, fails in two ways. A version given as the empty string is accepted:
  construction succeeds. And when the configure script itself is missing, an unset CUDA
  version is not what the error names.
\<close>

theorem gpu_field_failure_counterexample:
  "init example_fs (gpu_params\<lparr>cuda_version := Some []\<rparr>)
     = Inr (store (gpu_params\<lparr>cuda_version := Some []\<rparr>))
   \<and> init no_script_fs (gpu_params\<lparr>cuda_version := None\<rparr>)
     = Inl (AssertionError ''command must be a valid path to TensorFlow configure script'')
   \<and> \<not> names_field ''command must be a valid path to TensorFlow configure script'' Cuda_version"
  by (simp add: init_def check_cuda_def check_gcc_def check_tensorrt_def check_mpi_def
      gpu_params_def minimal_params_def example_fs_def no_script_fs_def names_field_def
      sublist_Cons_right)

text \<open>
  C2, amended. When the command path exists, neither unimplemented flag is set and the
  GPU flag is set: if a required GPU sub-field is unusable (not set or, for a path, not
  existing; the TensorRT path only when TensorRT is requested), then construction fails
  with an assertion error whose message names the first unusable sub-field in the order
  of the checks, and no other sub-field; this is the given sub-field when it is the only
  unusable one; and the script makes no call to pexpect.
\<close>

theorem gpu_field_failure:
  assumes "fs (command p)" "\<not> with_opencl_sycl p" "\<not> cuda_with_clang p" "with_cuda p"
    and "field_bad fs p f"
  shows "\<exists>g msg. first_unusable fs p = Some g \<and> field_bad fs p g \<and> names_field msg g
           \<and> (\<forall>h. names_field msg h \<longrightarrow> h = g)
           \<and> init fs p = Inl (AssertionError msg)
           \<and> main fs px p = Raised (AssertionError msg) fresh
           \<and> calls (final (main fs px p)) = []
           \<and> ((\<forall>h. h \<noteq> f \<longrightarrow> \<not> field_bad fs p h) \<longrightarrow> g = f)"
proof -
  from check_cuda_cases [OF assms(4) assms(3), of fs] assms(5)
  obtain g msg where c: "check_cuda fs p = Inl (AssertionError msg)"
    and g: "field_bad fs p g" "\<forall>h. names_field msg h \<longleftrightarrow> h = g" "first_unusable fs p = Some g"
    by blast
  have i: "init fs p = Inl (AssertionError msg)"
    using init_with_cuda [of fs p] assms(1-3) c by simp
  then have m: "main fs px p = Raised (AssertionError msg) fresh"
    by (rule main_of_init_error)
  have "calls (final (main fs px p)) = []"
    unfolding m by (rule calls_fresh)
  moreover have "(\<forall>h. h \<noteq> f \<longrightarrow> \<not> field_bad fs p h) \<longrightarrow> g = f"
    using g(1) by blast
  moreover have "names_field msg g" "\<forall>h. names_field msg h \<longrightarrow> h = g"
    using g(2) by simp_all
  ultimately show ?thesis using g(1,3) i m by blast
qed

theorem gpu_field_failure_witness:
  "example_fs (command (gpu_params\<lparr>cuda_version := None, cuda_path := Some ''/opt/cuda''\<rparr>))
   \<and> \<not> with_opencl_sycl (gpu_params\<lparr>cuda_version := None, cuda_path := Some ''/opt/cuda''\<rparr>)
   \<and> \<not> cuda_with_clang (gpu_params\<lparr>cuda_version := None, cuda_path := Some ''/opt/cuda''\<rparr>)
   \<and> with_cuda (gpu_params\<lparr>cuda_version := None, cuda_path := Some ''/opt/cuda''\<rparr>)
   \<and> field_bad example_fs
         (gpu_params\<lparr>cuda_version := None, cuda_path := Some ''/opt/cuda''\<rparr>) Cuda_path
   \<and> first_unusable example_fs
         (gpu_params\<lparr>cuda_version := None, cuda_path := Some ''/opt/cuda''\<rparr>) = Some Cuda_version
   \<and> (\<exists>msg. names_field msg Cuda_version \<and> \<not> names_field msg Cuda_path
         \<and> init example_fs (gpu_params\<lparr>cuda_version := None, cuda_path := Some ''/opt/cuda''\<rparr>)
             = Inl (AssertionError msg)
         \<and> calls (final (main example_fs obliging
               (gpu_params\<lparr>cuda_version := None, cuda_path := Some ''/opt/cuda''\<rparr>))) = [])"
proof -
  let ?p = "gpu_params\<lparr>cuda_version := None, cuda_path := Some ''/opt/cuda''\<rparr>"
  have h1: "example_fs (command ?p)"
    by (simp add: gpu_params_def minimal_params_def example_fs_def)
  have h2: "\<not> with_opencl_sycl ?p" by (simp add: gpu_params_def minimal_params_def)
  have h3: "\<not> cuda_with_clang ?p" by (simp add: gpu_params_def minimal_params_def)
  have h4: "with_cuda ?p" by (simp add: gpu_params_def minimal_params_def)
  have h5: "field_bad example_fs ?p Cuda_path"
    by (simp add: no_such_path_def example_fs_def)
  have h6: "first_unusable example_fs ?p = Some Cuda_version"
    by (simp add: first_unusable_def gpu_checks_def)
  from gpu_field_failure [where fs = example_fs and p = ?p and f = Cuda_path and px = obliging]
    h1 h2 h3 h4 h5
  obtain g msg where r: "first_unusable example_fs ?p = Some g" "names_field msg g"
    "\<forall>h. names_field msg h \<longrightarrow> h = g"
    "init example_fs ?p = Inl (AssertionError msg)"
    "calls (final (main example_fs obliging ?p)) = []"
    by blast
  have g: "g = Cuda_version" using r(1) h6 by simp
  have "\<not> names_field msg Cuda_path" using r(3) g by auto
  with r g h1 h2 h3 h4 h5 h6 show ?thesis by blast
qed

text \<open>
  C3. With the GPU flag unset, an existing command path, both unimplemented flags unset
  and the MPI path present when MPI is requested, construction succeeds whatever the
  GPU fields hold: they may be absent, empty or name paths that do not exist.
\<close>

theorem init_ignores_gpu_fields:
  assumes "fs (command p)" "\<not> with_opencl_sycl p" "\<not> cuda_with_clang p" "\<not> with_cuda p"
    and "with_mpi p \<longrightarrow> (\<exists>m. mpi_path p = Some m \<and> fs m)"
  shows "init fs p = Inr (store p)
       \<and> init fs (p\<lparr>cuda_version := v, cuda_path := cp, cuda_cudnn_version := dv,
                     cuda_cudnn_path := dp, cuda_with_tensorrt := t, cuda_tensorrt_path := tp,
                     cuda_nccl_version := nv, cuda_capabilities := caps, cuda_gcc_path := gp\<rparr>)
         = Inr (store (p\<lparr>cuda_version := v, cuda_path := cp, cuda_cudnn_version := dv,
                     cuda_cudnn_path := dp, cuda_with_tensorrt := t, cuda_tensorrt_path := tp,
                     cuda_nccl_version := nv, cuda_capabilities := caps, cuda_gcc_path := gp\<rparr>))"
  using assms by (auto simp: init_def check_cuda_def check_mpi_def)

theorem init_ignores_gpu_fields_witness:
  "example_fs (command minimal_params) \<and> \<not> with_opencl_sycl minimal_params
   \<and> \<not> cuda_with_clang minimal_params \<and> \<not> with_cuda minimal_params
   \<and> \<not> with_mpi minimal_params
   \<and> init example_fs (minimal_params\<lparr>cuda_version := Some [], cuda_path := Some ''/nowhere'',
         cuda_cudnn_version := None, cuda_cudnn_path := Some ''/nowhere'', cuda_with_tensorrt := True,
         cuda_tensorrt_path := None, cuda_nccl_version := None, cuda_capabilities := Some [],
         cuda_gcc_path := Some ''/nowhere''\<rparr>)
      = Inr (store (minimal_params\<lparr>cuda_version := Some [], cuda_path := Some ''/nowhere'',
         cuda_cudnn_version := None, cuda_cudnn_path := Some ''/nowhere'', cuda_with_tensorrt := True,
         cuda_tensorrt_path := None, cuda_nccl_version := None, cuda_capabilities := Some [],
         cuda_gcc_path := Some ''/nowhere''\<rparr>))"
proof -
  have h1: "example_fs (command minimal_params)" by (simp add: minimal_params_def example_fs_def)
  have h2: "\<not> with_opencl_sycl minimal_params" by (simp add: minimal_params_def)
  have h3: "\<not> cuda_with_clang minimal_params" by (simp add: minimal_params_def)
  have h4: "\<not> with_cuda minimal_params" by (simp add: minimal_params_def)
  have h5: "with_mpi minimal_params \<longrightarrow> (\<exists>m. mpi_path minimal_params = Some m \<and> example_fs m)"
    by (simp add: minimal_params_def)
  have h6: "\<not> with_mpi minimal_params" by (simp add: minimal_params_def)
  show ?thesis
    using h1 h2 h3 h4 h5 h6 init_ignores_gpu_fields [where fs = example_fs and p = minimal_params]
    by blast
qed

text \<open>
  C4, as stated, fails when the command path does not exist: the error is then the
  assertion on the command path, not a NotImplementedError.
\<close>

theorem unimplemented_flags_counterexample:
  "init no_script_fs (minimal_params\<lparr>with_opencl_sycl := True\<rparr>)
     = Inl (AssertionError ''command must be a valid path to TensorFlow configure script'')"
  by (simp add: init_def minimal_params_def no_script_fs_def)

text \<open>
  C4, amended. With the OpenCL SYCL flag or the CUDA-with-clang flag set, construction
  fails whatever the other fields hold, and the script makes no call to pexpect; the
  error is the NotImplementedError of the flag (of OpenCL SYCL when both are set) when
  the command path exists, and the assertion on the command path otherwise.
\<close>

theorem unimplemented_flags_fail:
  assumes "with_opencl_sycl p \<or> cuda_with_clang p"
  shows "(\<exists>e. init fs p = Inl e \<and> main fs px p = Raised e fresh)
       \<and> calls (final (main fs px p)) = []
       \<and> (fs (command p) \<longrightarrow>
            init fs p = Inl (NotImplementedError
              (if with_opencl_sycl p then ''with_opencl_sycl=True is not implemented''
               else ''cuda_with_clang=True is not implemented'')))
       \<and> (\<not> fs (command p) \<longrightarrow>
            init fs p = Inl (AssertionError
              ''command must be a valid path to TensorFlow configure script''))"
  using assms by (auto simp: init_def main_def fresh_def)

theorem unimplemented_flags_fail_witness:
  "(with_opencl_sycl (gpu_params\<lparr>cuda_with_clang := True\<rparr>)
      \<or> cuda_with_clang (gpu_params\<lparr>cuda_with_clang := True\<rparr>))
   \<and> example_fs (command (gpu_params\<lparr>cuda_with_clang := True\<rparr>))
   \<and> init example_fs (gpu_params\<lparr>cuda_with_clang := True\<rparr>)
       = Inl (NotImplementedError ''cuda_with_clang=True is not implemented'')
   \<and> calls (final (main example_fs obliging (gpu_params\<lparr>cuda_with_clang := True\<rparr>))) = []"
proof -
  let ?p = "gpu_params\<lparr>cuda_with_clang := True\<rparr>"
  have h: "with_opencl_sycl ?p \<or> cuda_with_clang ?p" by simp
  have c: "example_fs (command ?p)" by (simp add: gpu_params_def minimal_params_def example_fs_def)
  have s: "\<not> with_opencl_sycl ?p" by (simp add: gpu_params_def minimal_params_def)
  show ?thesis
    using h c s unimplemented_flags_fail [OF h, of example_fs obliging] by simp
qed

subsection \<open>run as a sequence of states\<close>

lemma seq_append:
  "seq (xs @ ys) d = (case seq xs d of Done d' \<Rightarrow> seq ys d' | Raised e d' \<Rightarrow> Raised e d')"
  by (induction xs arbitrary: d) (auto split: outcome.splits)

lemma bool_y_n_bool_val: "bool_y_n_bool b = val b"
  by (simp add: bool_y_n_bool_def)

lemma run_eq_steps:
  "run fs px cfg d = seq (spawn_script px cfg # map (exec_step px) (steps fs cfg)) d"
  unfolding run_def steps_def bool_y_n_bool_val
  by (cases "val (with_cuda cfg)"; cases "val (cuda_with_tensorrt cfg)";
      cases "val (with_mpi cfg)"; cases "val (cuda_with_clang cfg)")
     (simp_all add: seq_append split: outcome.splits)

lemma replay_append:
  "replay px t (xs @ ys) c =
     (case replay px t xs c of Inl e \<Rightarrow> Inl e | Inr c' \<Rightarrow> replay px t ys c')"
  by (induction px t xs c rule: replay.induct) (auto split: sum.splits)

lemma print_decoded_cases:
  "(\<exists>d'. print_decoded x d = Done d' \<and> script d' = script d \<and> calls d' = calls d
          \<and> decodes x)
   \<or> (print_decoded x d = Raised UnicodeDecodeError d \<and> \<not> decodes x)"
  by (auto simp: print_decoded_def decodes_def split: option.splits)

lemma line_answer_cases:
  assumes "script d = Some s"
  shows "(\<exists>d' s'. pexpect_line_answer px q a d = Done d' \<and> script d' = Some s'
            \<and> closed s' = closed s \<and> timeout s' = timeout s
            \<and> calls d' = calls d @ step_calls (Ask q (Inr a))
            \<and> replay px (timeout s) (step_calls (Ask q (Inr a))) (Some (child s))
                = Inr (Some (child s')))
       \<or> (\<exists>e d' pre. pexpect_line_answer px q a d = Raised e d'
            \<and> (\<exists>s'. script d' = Some s' \<and> closed s' = closed s)
            \<and> calls d' = calls d @ pre \<and> prefix pre (step_calls (Ask q (Inr a)))
            \<and> (e = UnicodeDecodeError
                \<or> (\<exists>pe. e = Pexpect pe
                      \<and> replay px (timeout s) (step_calls (Ask q (Inr a))) (Some (child s))
                          = Inl e)))"
proof -
  from print_decoded_cases [of "after s" d] show ?thesis
  proof
    assume "print_decoded (after s) d = Raised UnicodeDecodeError d \<and> \<not> decodes (after s)"
    then have "pexpect_line_answer px q a d = Raised UnicodeDecodeError d"
      using assms by (simp add: pexpect_line_answer_def)
    then show ?thesis using assms by auto
  next
    assume "\<exists>d'. print_decoded (after s) d = Done d' \<and> script d' = script d
        \<and> calls d' = calls d \<and> decodes (after s)"
    then obtain d1 where d1: "print_decoded (after s) d = Done d1" "script d1 = script d"
      "calls d1 = calls d"
      by blast
    let ?d2 = "d1\<lparr>calls := calls d1 @ [Expect q]\<rparr>"
    show ?thesis
    proof (cases "expect px (timeout s) (child s) q")
      case (Inl pe)
      then have "pexpect_line_answer px q a d = Raised (Pexpect pe) ?d2"
        using assms d1 by (simp add: pexpect_line_answer_def)
      moreover have "replay px (timeout s) (step_calls (Ask q (Inr a))) (Some (child s))
          = Inl (Pexpect pe)"
        using Inl by (cases a) simp_all
      moreover have "prefix [Expect q] (step_calls (Ask q (Inr a)))"
        by (cases a) simp_all
      ultimately show ?thesis using assms d1 by auto
    next
      case (Inr r)
      obtain c b af where r: "r = (c, b, af)" by (cases r)
      let ?s1 = "s\<lparr>child := c, before := b, after := af\<rparr>"
      show ?thesis
      proof (cases a)
        case None
        let ?d3 = "?d2\<lparr>script := Some ?s1\<rparr>"
        have eq: "pexpect_line_answer px q a d = print_decoded b ?d3"
          using assms d1 Inr r None by (simp add: pexpect_line_answer_def)
        have rp: "replay px (timeout s) (step_calls (Ask q (Inr a))) (Some (child s))
            = Inr (Some c)"
          using Inr r None by simp
        from print_decoded_cases [of b ?d3] show ?thesis
          unfolding eq using d1 rp None by auto
      next
        case (Some ans)
        let ?d3 = "?d2\<lparr>calls := calls ?d2 @ [Sendline (answer_text ans)]\<rparr>"
        show ?thesis
        proof (cases "sendline px c (answer_text ans)")
          case (Inl pe)
          have "pexpect_line_answer px q a d = Raised (Pexpect pe) (?d3\<lparr>script := Some ?s1\<rparr>)"
            using assms d1 Inr r Some Inl by (simp add: pexpect_line_answer_def)
          moreover have "replay px (timeout s) (step_calls (Ask q (Inr a))) (Some (child s))
              = Inl (Pexpect pe)"
            using Inr r Some Inl by simp
          ultimately show ?thesis using d1 Some by auto
        next
          case sent: (Inr c')
          let ?d4 = "?d3\<lparr>script := Some (?s1\<lparr>child := c'\<rparr>)\<rparr>"
          have eq: "pexpect_line_answer px q a d = print_decoded b ?d4"
            using assms d1 Inr r Some sent by (simp add: pexpect_line_answer_def)
          have rp: "replay px (timeout s) (step_calls (Ask q (Inr a))) (Some (child s))
              = Inr (Some c')"
            using Inr r Some sent by simp
          from print_decoded_cases [of b ?d4] show ?thesis
            unfolding eq using d1 rp Some by auto
        qed
      qed
    qed
  qed
qed

lemma exec_step_cases:
  assumes "script d = Some s"
  shows "(\<exists>d' s'. exec_step px st d = Done d' \<and> script d' = Some s' \<and> closed s' = closed s
            \<and> timeout s' = timeout s
            \<and> calls d' = calls d @ step_calls st \<and> step_error st = None
            \<and> replay px (timeout s) (step_calls st) (Some (child s)) = Inr (Some (child s')))
       \<or> (\<exists>e d' pre. exec_step px st d = Raised e d'
            \<and> (\<exists>s'. script d' = Some s' \<and> closed s' = closed s)
            \<and> calls d' = calls d @ pre \<and> prefix pre (step_calls st)
            \<and> (e = UnicodeDecodeError
                \<or> (\<exists>pe. e = Pexpect pe \<and> step_error st = None
                      \<and> replay px (timeout s) (step_calls st) (Some (child s)) = Inl e)
                \<or> step_error st = Some e))"
proof (cases st)
  case (Raise e)
  then show ?thesis using assms by (simp add: raise_stmt_def)
next
  case (Ask q a)
  show ?thesis
  proof (cases a)
    case (Inl e)
    then show ?thesis using assms Ask by (simp add: ask_def)
  next
    case (Inr ans)
    have "exec_step px st d = pexpect_line_answer px q ans d"
      using Ask Inr by (simp add: ask_def)
    moreover have "step_error st = None" using Ask Inr by simp
    moreover have "step_calls st = step_calls (Ask q (Inr ans))" using Ask Inr by simp
    ultimately show ?thesis
      using line_answer_cases [OF assms, of px q ans] by auto
  qed
qed

lemma step_calls_of_error: "step_error st = Some e \<Longrightarrow> step_calls st = []"
  by (cases st rule: step_error.cases) simp_all

lemma exec_steps:
  assumes "script d = Some s"
  shows "\<exists>s' pre. script (final (seq (map (exec_step px) ss) d)) = Some s'
       \<and> closed s' = closed s
       \<and> calls (final (seq (map (exec_step px) ss) d)) = calls d @ pre
       \<and> prefix pre (planned_calls ss)
       \<and> (\<forall>d'. seq (map (exec_step px) ss) d = Done d' \<longrightarrow>
            pre = planned_calls ss \<and> (\<forall>st\<in>set ss. step_error st = None)
            \<and> timeout s' = timeout s
            \<and> replay px (timeout s) (planned_calls ss) (Some (child s)) = Inr (Some (child s')))
       \<and> (\<forall>e d'. seq (map (exec_step px) ss) d = Raised e d' \<longrightarrow>
            e = UnicodeDecodeError
            \<or> (\<exists>pe. e = Pexpect pe
                  \<and> replay px (timeout s) (planned_calls ss) (Some (child s)) = Inl e)
            \<or> (\<exists>st\<in>set ss. step_error st = Some e))"
  using assms
proof (induction ss arbitrary: d s)
  case Nil
  then show ?case by simp
next
  case (Cons st ss)
  from exec_step_cases [OF Cons.prems, of px st] show ?case
  proof
    assume "\<exists>d' s'. exec_step px st d = Done d' \<and> script d' = Some s' \<and> closed s' = closed s
            \<and> timeout s' = timeout s
            \<and> calls d' = calls d @ step_calls st \<and> step_error st = None
            \<and> replay px (timeout s) (step_calls st) (Some (child s)) = Inr (Some (child s'))"
    then obtain d1 s1 where st: "exec_step px st d = Done d1" "script d1 = Some s1"
      "closed s1 = closed s" "calls d1 = calls d @ step_calls st" "step_error st = None"
      "timeout s1 = timeout s"
      "replay px (timeout s) (step_calls st) (Some (child s)) = Inr (Some (child s1))"
      by blast
    have run: "seq (map (exec_step px) (st # ss)) d = seq (map (exec_step px) ss) d1"
      using st(1) by simp
    have plan: "planned_calls (st # ss) = step_calls st @ planned_calls ss"
      using st(5) by simp
    have rp: "replay px (timeout s) (planned_calls (st # ss)) (Some (child s))
        = replay px (timeout s1) (planned_calls ss) (Some (child s1))"
      unfolding plan replay_append using st(6,7) by simp
    from Cons.IH [OF st(2)] obtain s' pre where
      ih: "script (final (seq (map (exec_step px) ss) d1)) = Some s'"
        "closed s' = closed s1"
        "calls (final (seq (map (exec_step px) ss) d1)) = calls d1 @ pre"
        "prefix pre (planned_calls ss)"
        "\<forall>d'. seq (map (exec_step px) ss) d1 = Done d' \<longrightarrow>
            pre = planned_calls ss \<and> (\<forall>st\<in>set ss. step_error st = None)
            \<and> timeout s' = timeout s1
            \<and> replay px (timeout s1) (planned_calls ss) (Some (child s1)) = Inr (Some (child s'))"
        "\<forall>e d'. seq (map (exec_step px) ss) d1 = Raised e d' \<longrightarrow>
            e = UnicodeDecodeError
            \<or> (\<exists>pe. e = Pexpect pe
                  \<and> replay px (timeout s1) (planned_calls ss) (Some (child s1)) = Inl e)
            \<or> (\<exists>st\<in>set ss. step_error st = Some e)"
      by blast
    let ?pre = "step_calls st @ pre"
    have "script (final (seq (map (exec_step px) (st # ss)) d)) = Some s'"
      unfolding run by (rule ih(1))
    moreover have "closed s' = closed s" using ih(2) st(3) by simp
    moreover have "calls (final (seq (map (exec_step px) (st # ss)) d)) = calls d @ ?pre"
      unfolding run using ih(3) st(4) by simp
    moreover have "prefix ?pre (planned_calls (st # ss))"
      using ih(4) st(5) by simp
    moreover have "\<forall>d'. seq (map (exec_step px) (st # ss)) d = Done d' \<longrightarrow>
            ?pre = planned_calls (st # ss) \<and> (\<forall>x\<in>set (st # ss). step_error x = None)
            \<and> timeout s' = timeout s
            \<and> replay px (timeout s) (planned_calls (st # ss)) (Some (child s))
                = Inr (Some (child s'))"
      unfolding run rp using ih(5) st(5,6) by (simp add: plan)
    moreover have "\<forall>e d'. seq (map (exec_step px) (st # ss)) d = Raised e d' \<longrightarrow>
            e = UnicodeDecodeError
            \<or> (\<exists>pe. e = Pexpect pe
                  \<and> replay px (timeout s) (planned_calls (st # ss)) (Some (child s)) = Inl e)
            \<or> (\<exists>x\<in>set (st # ss). step_error x = Some e)"
      unfolding run rp using ih(6) by auto
    ultimately show ?case by blast
  next
    assume "\<exists>e d' pre. exec_step px st d = Raised e d'
            \<and> (\<exists>s'. script d' = Some s' \<and> closed s' = closed s)
            \<and> calls d' = calls d @ pre \<and> prefix pre (step_calls st)
            \<and> (e = UnicodeDecodeError
                \<or> (\<exists>pe. e = Pexpect pe \<and> step_error st = None
                      \<and> replay px (timeout s) (step_calls st) (Some (child s)) = Inl e)
                \<or> step_error st = Some e)"
    then obtain e d1 pre s1 where st: "exec_step px st d = Raised e d1" "script d1 = Some s1"
      "closed s1 = closed s" "calls d1 = calls d @ pre" "prefix pre (step_calls st)"
      "e = UnicodeDecodeError
       \<or> (\<exists>pe. e = Pexpect pe \<and> step_error st = None
             \<and> replay px (timeout s) (step_calls st) (Some (child s)) = Inl e)
       \<or> step_error st = Some e"
      by blast
    have run: "seq (map (exec_step px) (st # ss)) d = Raised e d1"
      using st(1) by simp
    have "prefix pre (planned_calls (st # ss))"
    proof (cases "step_error st")
      case None
      then show ?thesis using st(5) by (simp add: prefix_prefix)
    next
      case (Some e')
      then have "pre = []" using st(5) step_calls_of_error by fastforce
      then show ?thesis by simp
    qed
    moreover have "e = UnicodeDecodeError
            \<or> (\<exists>pe. e = Pexpect pe
                  \<and> replay px (timeout s) (planned_calls (st # ss)) (Some (child s)) = Inl e)
            \<or> (\<exists>x\<in>set (st # ss). step_error x = Some e)"
      using st(6) by (auto simp: replay_append)
    ultimately show ?case unfolding run using st(2,3,4) by auto
  qed
qed

lemma print_decoded_ok:
  "decodes x \<Longrightarrow> \<exists>d'. print_decoded x d = Done d' \<and> script d' = script d"
  using print_decoded_cases [of x d] by auto

lemma cooperative_line_answer:
  assumes "cooperative px" "script d = Some s" "decodes (after s)"
  shows "\<exists>d' s'. pexpect_line_answer px q a d = Done d' \<and> script d' = Some s'
           \<and> decodes (after s')"
proof -
  obtain d1 where d1: "print_decoded (after s) d = Done d1" "script d1 = script d"
    using print_decoded_ok [OF assms(3)] by blast
  obtain c b af where r: "expect px (timeout s) (child s) q = Inr (c, b, af)"
    "decodes b" "decodes af"
    using assms(1) unfolding cooperative_def by blast
  let ?d2 = "d1\<lparr>calls := calls d1 @ [Expect q]\<rparr>"
  let ?s1 = "s\<lparr>child := c, before := b, after := af\<rparr>"
  show ?thesis
  proof (cases a)
    case None
    have "pexpect_line_answer px q a d = print_decoded b (?d2\<lparr>script := Some ?s1\<rparr>)"
      using assms(2) d1 r(1) None by (simp add: pexpect_line_answer_def)
    then show ?thesis
      using print_decoded_ok [OF r(2), of "?d2\<lparr>script := Some ?s1\<rparr>"] r(3) by auto
  next
    case (Some ans)
    obtain c' where c': "sendline px c (answer_text ans) = Inr c'"
      using assms(1) unfolding cooperative_def by blast
    let ?d4 = "?d2\<lparr>calls := calls ?d2 @ [Sendline (answer_text ans)],
                    script := Some (?s1\<lparr>child := c'\<rparr>)\<rparr>"
    have "pexpect_line_answer px q a d = print_decoded b ?d4"
      using assms(2) d1 r(1) Some c' by (simp add: pexpect_line_answer_def)
    then show ?thesis
      using print_decoded_ok [OF r(2), of ?d4] r(3) by auto
  qed
qed

lemma cooperative_step:
  assumes "cooperative px" "script d = Some s" "decodes (after s)" "step_error st = None"
  shows "\<exists>d' s'. exec_step px st d = Done d' \<and> script d' = Some s' \<and> decodes (after s')"
proof (cases st)
  case (Raise e)
  then show ?thesis using assms(4) by simp
next
  case (Ask q a)
  then obtain ans where "a = Inr ans" using assms(4) by (cases a) simp_all
  then show ?thesis
    using Ask cooperative_line_answer [OF assms(1,2,3), of q ans] by (simp add: ask_def)
qed

lemma cooperative_steps:
  assumes "cooperative px" "script d = Some s" "decodes (after s)"
    "\<forall>st\<in>set ss. step_error st = None"
  shows "\<exists>d'. seq (map (exec_step px) ss) d = Done d'"
  using assms(2,3,4)
proof (induction ss arbitrary: d s)
  case Nil
  then show ?case by simp
next
  case (Cons st ss)
  from Cons.prems have "step_error st = None" by simp
  from cooperative_step [OF assms(1) Cons.prems(1,2) this]
  obtain d1 s1 where d1: "exec_step px st d = Done d1" "script d1 = Some s1"
    "decodes (after s1)"
    by blast
  from Cons.IH [OF d1(2,3)] Cons.prems(3)
  obtain d' where "seq (map (exec_step px) ss) d1 = Done d'" by auto
  then show ?case using d1(1) by simp
qed

lemma run_not_spawned:
  "spawn px (command cfg) = Inl e \<Longrightarrow>
   run fs px cfg d = Raised (Pexpect e) (d\<lparr>calls := calls d @ [Spawn (command cfg)]\<rparr>)"
  by (simp add: run_eq_steps spawn_script_def)

lemma run_spawned:
  "spawn px (command cfg) = Inr c \<Longrightarrow>
   run fs px cfg d =
     seq (map (exec_step px) (steps fs cfg))
       (d\<lparr>calls := calls d @ [Spawn (command cfg)],
          script := Some \<lparr>child = c, timeout = 2, before = None, after = None, closed = False\<rparr>\<rparr>)"
  by (simp add: run_eq_steps spawn_script_def)

lemma run_follows_plan:
  "prefix (calls (final (run fs px cfg d)))
     (calls d @ Spawn (command cfg) # planned_calls (steps fs cfg))
   \<and> (\<forall>d'. run fs px cfg d = Done d' \<longrightarrow>
         calls d' = calls d @ Spawn (command cfg) # planned_calls (steps fs cfg)
         \<and> (\<forall>st\<in>set (steps fs cfg). step_error st = None)
         \<and> replay px 2 (Spawn (command cfg) # planned_calls (steps fs cfg)) None
             = Inr (map_option child (script d')))
   \<and> (\<forall>e d'. run fs px cfg d = Raised e d' \<longrightarrow>
         e = UnicodeDecodeError
         \<or> (\<exists>pe. e = Pexpect pe
               \<and> replay px 2 (Spawn (command cfg) # planned_calls (steps fs cfg)) None = Inl e)
         \<or> (\<exists>st\<in>set (steps fs cfg). step_error st = Some e))"
proof (cases "spawn px (command cfg)")
  case (Inl e)
  show ?thesis unfolding run_not_spawned [OF Inl] using Inl by simp
next
  case (Inr c)
  let ?s0 = "\<lparr>child = c, timeout = 2, before = None, after = None, closed = False\<rparr>"
  let ?d0 = "d\<lparr>calls := calls d @ [Spawn (command cfg)], script := Some ?s0\<rparr>"
  have rp: "replay px 2 (Spawn (command cfg) # cs) None = replay px 2 cs (Some c)" for cs
    using Inr by simp
  have "script ?d0 = Some ?s0" by simp
  from exec_steps [OF this, of px "steps fs cfg"]
  show ?thesis unfolding run_spawned [OF Inr] rp by auto
qed

lemma run_leaves_handle_open:
  assumes "spawn px (command cfg) = Inr c"
  shows "\<exists>s. script (final (run fs px cfg d)) = Some s \<and> \<not> closed s"
proof -
  let ?d0 = "d\<lparr>calls := calls d @ [Spawn (command cfg)],
          script := Some \<lparr>child = c, timeout = 2, before = None, after = None, closed = False\<rparr>\<rparr>"
  have "script ?d0 = Some \<lparr>child = c, timeout = 2, before = None, after = None, closed = False\<rparr>"
    by simp
  from exec_steps [OF this, of px "steps fs cfg"]
  show ?thesis unfolding run_spawned [OF assms] by auto
qed

lemma run_completes:
  assumes "cooperative px" "\<forall>st\<in>set (steps fs cfg). step_error st = None"
  shows "\<exists>d'. run fs px cfg d = Done d'"
proof -
  obtain c where c: "spawn px (command cfg) = Inr c"
    using assms(1) unfolding cooperative_def by blast
  let ?s0 = "\<lparr>child = c, timeout = 2, before = None, after = None, closed = False\<rparr>"
  let ?d0 = "d\<lparr>calls := calls d @ [Spawn (command cfg)], script := Some ?s0\<rparr>"
  have "script ?d0 = Some ?s0" by simp
  moreover have "decodes (after ?s0)" by (simp add: decodes_def)
  ultimately show ?thesis
    unfolding run_spawned [OF c] using cooperative_steps [OF assms(1) _ _ assms(2)] by blast
qed

subsection \<open>The minimal run\<close>

lemma init_success:
  assumes "init fs p = Inr cfg"
  shows "cfg = store p \<and> fs (command p) \<and> \<not> with_opencl_sycl p \<and> \<not> cuda_with_clang p
       \<and> check_cuda fs p = Inr () \<and> check_mpi fs p = Inr ()"
  using assms by (auto simp: init_def split: if_splits sum.splits)

lemma flag_N: "bool_y_n_encode (Bool_y_n False) = ''N''"
  by (simp add: bool_y_n_encode_def bool_y_n_str_def bool_y_n_repr_def)

lemma minimal_steps:
  assumes "minimal p" "python_bin_path fs (store p) = Inr bin"
    "python_dist_path fs (store p) = Inr lib"
  shows "Spawn (command (store p)) # planned_calls (steps fs (store p))
           = minimal_calls (command p) bin lib
         \<and> (\<forall>st\<in>set (steps fs (store p)). step_error st = None)"
proof -
  have flags: "with_jemalloc (store p) = Bool_y_n False"
    "with_google_cloud_platform (store p) = Bool_y_n False"
    "with_hdfs (store p) = Bool_y_n False" "with_amazon_s3 (store p) = Bool_y_n False"
    "with_kafka (store p) = Bool_y_n False" "with_xla_jit (store p) = Bool_y_n False"
    "with_gdr (store p) = Bool_y_n False" "with_verbs (store p) = Bool_y_n False"
    "with_opencl_sycl (store p) = Bool_y_n False" "with_cuda (store p) = Bool_y_n False"
    "with_fresh_clang (store p) = Bool_y_n False" "with_mpi (store p) = Bool_y_n False"
    "opts_flags (store p) = None" "command (store p) = command p"
    using assms(1) by (simp_all add: minimal_def store_def)
  show ?thesis
    unfolding steps_def flags assms(2,3) minimal_calls_def
    by (simp add: property_def flag_def literal_def no_answer_def opts_flags_str_def flags flag_N)
qed


lemma cfg_min: "store minimal_params = \<lparr> command = ''./configure'',
       python_version = ''3.6'',
       with_jemalloc = Bool_y_n False,
       with_google_cloud_platform = Bool_y_n False,
       with_hdfs = Bool_y_n False,
       with_amazon_s3 = Bool_y_n False,
       with_kafka = Bool_y_n False,
       with_xla_jit = Bool_y_n False,
       with_gdr = Bool_y_n False,
       with_verbs = Bool_y_n False,
       with_opencl_sycl = Bool_y_n False,
       with_cuda = Bool_y_n False,
       with_fresh_clang = Bool_y_n False,
       with_mpi = Bool_y_n False,
       cuda_version = None,
       cuda_path = None,
       cuda_cudnn_version = None,
       cuda_cudnn_path = None,
       cuda_with_tensorrt = Bool_y_n False,
       cuda_tensorrt_path = None,
       cuda_nccl_version = None,
       cuda_capabilities = None,
       cuda_with_clang = Bool_y_n False,
       cuda_gcc_path = None,
       mpi_path = None,
       opts_flags = None \<rparr>"
  by (simp add: store_def minimal_params_def)

text \<open>
  C1. For a minimal configuration that was constructed successfully and whose two
  interpreter paths exist, and for every child: the calls of \<open>run\<close> are a prefix of the
  minimal sequence (interpreter binary, interpreter library, nine feature prompts
  answered \<open>N\<close>, GPU answered \<open>N\<close>, fresh clang answered \<open>N\<close>, MPI answered \<open>N\<close>, the
  optimization flags answered with the empty string, Android answered \<open>N\<close>, completion
  marker, end of output). A run that raises does so with UnicodeDecodeError or with the
  pexpect error the child gives when these calls reach it in order. A run that completes
  has made exactly these calls, the child has accepted every one of them in this order
  with the timeout of 2, and the handle holds the state this leaves the child in. With a
  child that shows every prompt, with output that is valid UTF-8, the run completes.
\<close>

theorem minimal_run:
  assumes "init fs p = Inr cfg" "minimal p"
    and "python_bin_path fs cfg = Inr bin" "python_dist_path fs cfg = Inr lib"
  shows "prefix (calls (final (run fs px cfg fresh))) (minimal_calls (command p) bin lib)
       \<and> (\<forall>e d. run fs px cfg fresh = Raised e d \<longrightarrow>
             e = UnicodeDecodeError
             \<or> (\<exists>pe. e = Pexpect pe
                   \<and> replay px 2 (minimal_calls (command p) bin lib) None = Inl e))
       \<and> (\<forall>d. run fs px cfg fresh = Done d \<longrightarrow>
             calls d = minimal_calls (command p) bin lib
             \<and> replay px 2 (minimal_calls (command p) bin lib) None
                 = Inr (map_option child (script d)))
       \<and> (cooperative px \<longrightarrow>
            (\<exists>d. run fs px cfg fresh = Done d
               \<and> calls d = minimal_calls (command p) bin lib
               \<and> replay px 2 (minimal_calls (command p) bin lib) None
                   = Inr (map_option child (script d))))"
proof -
  have cfg: "cfg = store p" using init_success [OF assms(1)] by simp
  have plan: "Spawn (command cfg) # planned_calls (steps fs cfg) = minimal_calls (command p) bin lib"
    and ok: "\<forall>st\<in>set (steps fs cfg). step_error st = None"
    using minimal_steps [OF assms(2), of fs bin lib] assms(3,4) unfolding cfg by simp_all
  have fresh: "calls (fresh :: 'a driver) = []" by (simp add: fresh_def)
  note follows = run_follows_plan [of fs px cfg fresh, unfolded fresh append_Nil plan]
  have a: "prefix (calls (final (run fs px cfg fresh))) (minimal_calls (command p) bin lib)"
    using follows by blast
  have b: "\<forall>e d. run fs px cfg fresh = Raised e d \<longrightarrow>
             e = UnicodeDecodeError
             \<or> (\<exists>pe. e = Pexpect pe
                   \<and> replay px 2 (minimal_calls (command p) bin lib) None = Inl e)"
    using follows ok by fastforce
  have c: "\<forall>d. run fs px cfg fresh = Done d \<longrightarrow>
             calls d = minimal_calls (command p) bin lib
             \<and> replay px 2 (minimal_calls (command p) bin lib) None
                 = Inr (map_option child (script d))"
    using follows by blast
  have "\<exists>d. run fs px cfg fresh = Done d" if "cooperative px"
    using run_completes [OF that ok] .
  with a b c show ?thesis by blast
qed

lemma decodes_ascii: "decodes None" "decodes (Some ''output'')" "decodes (Some ''prompt'')"
  by (simp_all add: decodes_def decode_utf8_def)

lemma cooperative_obliging: "cooperative obliging"
  by (simp add: cooperative_def obliging_def decodes_ascii)

lemma cooperative_recording: "cooperative recording"
  by (simp add: cooperative_def recording_def decodes_ascii)

lemma init_minimal: "init example_fs minimal_params = Inr (store minimal_params)"
  by (simp add: init_def check_cuda_def check_mpi_def minimal_params_def example_fs_def)

lemma run_silent:
  "run example_fs silent (store minimal_params) fresh
     = Raised (Pexpect TIMEOUT)
         \<lparr>script = Some \<lparr>child = 0, timeout = 2, before = None, after = None, closed = False\<rparr>,
          stdout = [], calls = [Spawn ''./configure'', Expect q_python_bin]\<rparr>"
  unfolding cfg_min
  by (simp add: run_def spawn_script_def ask_def pexpect_line_answer_def print_decoded_def
      property_def python_bin_path_def example_fs_def silent_def fresh_def Let_def)

lemma run_garbled:
  "raised (run example_fs garbled (store minimal_params) fresh) = Some UnicodeDecodeError
   \<and> calls (final (run example_fs garbled (store minimal_params) fresh))
       = [Spawn ''./configure'', Expect q_python_bin, Sendline ''/usr/bin/python3.6'']"
  unfolding cfg_min
  by (simp add: run_def spawn_script_def ask_def pexpect_line_answer_def print_decoded_def
      decode_utf8_def property_def python_bin_path_def example_fs_def garbled_def fresh_def
      Let_def)

theorem minimal_run_witness:
  "init example_fs minimal_params = Inr (store minimal_params)
   \<and> minimal minimal_params
   \<and> python_bin_path example_fs (store minimal_params) = Inr ''/usr/bin/python3.6''
   \<and> python_dist_path example_fs (store minimal_params) = Inr ''/usr/lib/python3/dist-packages''
   \<and> cooperative recording
   \<and> raised (run example_fs recording (store minimal_params) fresh) = None
   \<and> map_option child (script (final (run example_fs recording (store minimal_params) fresh)))
       = Some (minimal_calls ''./configure'' ''/usr/bin/python3.6''
                 ''/usr/lib/python3/dist-packages'')
   \<and> raised (run example_fs silent (store minimal_params) fresh) = Some (Pexpect TIMEOUT)
   \<and> calls (final (run example_fs silent (store minimal_params) fresh))
       = [Spawn ''./configure'', Expect q_python_bin]
   \<and> raised (run example_fs garbled (store minimal_params) fresh) = Some UnicodeDecodeError"
proof -
  let ?L = "minimal_calls ''./configure'' ''/usr/bin/python3.6'' ''/usr/lib/python3/dist-packages''"
  have h1: "init example_fs minimal_params = Inr (store minimal_params)" by (rule init_minimal)
  have h2: "minimal minimal_params" by (simp add: minimal_def minimal_params_def)
  have h3: "python_bin_path example_fs (store minimal_params) = Inr ''/usr/bin/python3.6''"
    by (simp add: python_bin_path_def store_def minimal_params_def example_fs_def)
  have h4: "python_dist_path example_fs (store minimal_params)
      = Inr ''/usr/lib/python3/dist-packages''"
    by (simp add: python_dist_path_def startswith_def store_def minimal_params_def example_fs_def)
  have cmd: "command minimal_params = ''./configure''" by (simp add: minimal_params_def)
  have seen: "replay recording 2 ?L None = Inr (Some ?L)"
    by (simp add: minimal_calls_def recording_def)
  from minimal_run [OF h1 h2 h3 h4, of recording] cooperative_recording
  obtain d where d: "run example_fs recording (store minimal_params) fresh = Done d"
    "replay recording 2 (minimal_calls (command minimal_params) ''/usr/bin/python3.6''
       ''/usr/lib/python3/dist-packages'') None = Inr (map_option child (script d))"
    by blast
  have "map_option child (script d) = Some ?L"
    using d(2) seen unfolding cmd by simp
  then have rec: "raised (run example_fs recording (store minimal_params) fresh) = None"
    "map_option child (script (final (run example_fs recording (store minimal_params) fresh)))
       = Some ?L"
    using d(1) by simp_all
  have sil: "raised (run example_fs silent (store minimal_params) fresh) = Some (Pexpect TIMEOUT)"
    "calls (final (run example_fs silent (store minimal_params) fresh))
       = [Spawn ''./configure'', Expect q_python_bin]"
    unfolding run_silent by simp_all
  show ?thesis
    using h1 h2 h3 h4 cooperative_recording rec sil run_garbled by blast
qed

subsection \<open>Exit paths and branches of run\<close>

text \<open>
  C5, as stated, fails on both exit paths. With a child that shows every prompt the run
  completes, and with a child that exits after its first prompt the run raises EOF; in
  both cases the handle in \<open>self.script\<close> is not closed when the run ends.
\<close>

theorem handle_counterexample:
  "raised (run example_fs obliging (store minimal_params) fresh) = None
   \<and> map_option closed (script (final (run example_fs obliging (store minimal_params) fresh)))
       = Some False
   \<and> raised (run example_fs exits_early (store minimal_params) fresh) = Some (Pexpect EOF)
   \<and> map_option closed (script (final (run example_fs exits_early (store minimal_params) fresh)))
       = Some False"
  unfolding cfg_min
  by (simp add: run_def spawn_script_def ask_def pexpect_line_answer_def print_decoded_def
      decode_utf8_def property_def flag_def literal_def attr_def no_answer_def
      python_bin_path_def python_dist_path_def startswith_def opts_flags_str_def
      bool_y_n_bool_def example_fs_def obliging_def exits_early_def fresh_def flag_N Let_def)


text \<open>
  C5, amended. \<open>run\<close> never closes the child's handle: once the child is spawned, on
  every exit path of \<open>run\<close>, completion or exception, \<open>self.script\<close> holds the handle and
  the handle is not closed when \<open>run\<close> ends. When the spawn itself raises, that error
  ends the run and \<open>self.script\<close> is what it was.
\<close>

theorem handle_stays_open:
  "(\<forall>c. spawn px (command cfg) = Inr c \<longrightarrow>
       (\<exists>s. script (final (run fs px cfg d)) = Some s \<and> \<not> closed s))
   \<and> (\<forall>e. spawn px (command cfg) = Inl e \<longrightarrow>
       raised (run fs px cfg d) = Some (Pexpect e)
       \<and> script (final (run fs px cfg d)) = script d)"
proof (intro conjI allI impI)
  fix c assume "spawn px (command cfg) = Inr c"
  then show "\<exists>s. script (final (run fs px cfg d)) = Some s \<and> \<not> closed s"
    by (rule run_leaves_handle_open)
next
  fix e assume e: "spawn px (command cfg) = Inl e"
  show "raised (run fs px cfg d) = Some (Pexpect e)"
    unfolding run_not_spawned [OF e] by simp
  show "script (final (run fs px cfg d)) = script d"
    unfolding run_not_spawned [OF e] by simp
qed

theorem handle_stays_open_witness:
  "spawn exits_early (command (store minimal_params)) = Inr 0
   \<and> (\<exists>s. script (final (run example_fs exits_early (store minimal_params) fresh)) = Some s
         \<and> \<not> closed s)"
proof -
  have h: "spawn exits_early (command (store minimal_params)) = Inr 0"
    by (simp add: exits_early_def)
  show ?thesis
    using h handle_stays_open [of exits_early "store minimal_params" example_fs fresh]
    by blast
qed

lemma planned_calls_no_error:
  "\<forall>st\<in>set ss. step_error st = None \<Longrightarrow> planned_calls ss = concat (map step_calls ss)"
  by (induction ss) simp_all

lemma python_bin_path_error: "python_bin_path fs cfg = Inl e \<Longrightarrow> \<exists>m. e = AssertionError m"
  by (auto simp: python_bin_path_def Let_def split: if_splits)

lemma python_dist_path_error: "python_dist_path fs cfg = Inl e \<Longrightarrow> \<exists>m. e = AssertionError m"
  by (auto simp: python_dist_path_def Let_def split: if_splits)

lemma cuda_capabilities_str_error: "cuda_capabilities_str cfg = Inl e \<Longrightarrow> e = TypeError"
  by (auto simp: cuda_capabilities_str_def split: option.splits)

lemma property_error:
  "step_error (Ask q (property r)) = Some e \<Longrightarrow> r = Inl e"
  by (cases r) (simp_all add: property_def)

lemma no_step_error [simp]:
  "step_error (Ask q (flag b)) = None" "step_error (Ask q (attr x)) = None"
  "step_error (Ask q (literal t)) = None" "step_error (Ask q no_answer) = None"
  by (simp_all add: flag_def attr_def literal_def no_answer_def)

lemma steps_errors:
  assumes "\<not> val (cuda_with_clang cfg)" "st \<in> set (steps fs cfg)" "step_error st = Some e"
  shows "(\<exists>m. e = AssertionError m) \<or> e = TypeError"
proof -
  from assms have "st = Ask q_python_bin (property (python_bin_path fs cfg))
      \<or> st = Ask q_python_lib (property (python_dist_path fs cfg))
      \<or> st = Ask q_capabilities (property (cuda_capabilities_str cfg))"
    by (auto simp: steps_def split: if_splits)
  then show ?thesis
    using assms(3) python_bin_path_error python_dist_path_error cuda_capabilities_str_error
    by (auto dest!: property_error)
qed

lemma steps_gpu_split:
  assumes "val (with_cuda cfg)" "\<not> val (cuda_with_clang cfg)"
  shows "\<exists>A B. steps fs cfg = A @ [Ask q_clang (flag (cuda_with_clang cfg)),
                                   Ask q_gcc_path (attr (cuda_gcc_path cfg))] @ B"
proof -
  let ?A = "[Ask q_python_bin (property (python_bin_path fs cfg)),
      Ask q_python_lib (property (python_dist_path fs cfg)),
      Ask q_jemalloc (flag (with_jemalloc cfg)),
      Ask q_google_cloud_platform (flag (with_google_cloud_platform cfg)),
      Ask q_hdfs (flag (with_hdfs cfg)),
      Ask q_amazon_s3 (flag (with_amazon_s3 cfg)),
      Ask q_kafka (flag (with_kafka cfg)),
      Ask q_xla_jit (flag (with_xla_jit cfg)),
      Ask q_gdr (flag (with_gdr cfg)),
      Ask q_verbs (flag (with_verbs cfg)),
      Ask q_opencl_sycl (flag (with_opencl_sycl cfg)),
      Ask q_cuda (flag (with_cuda cfg)),
      Ask q_cuda_version (attr (cuda_version cfg)),
      Ask q_cuda_path (attr (cuda_path cfg)),
      Ask q_cudnn_version (attr (cuda_cudnn_version cfg)),
      Ask q_cudnn_path (attr (cuda_cudnn_path cfg)),
      Ask q_tensorrt (flag (cuda_with_tensorrt cfg))]
     @ (if val (cuda_with_tensorrt cfg)
        then [Ask q_tensorrt_path (attr (cuda_tensorrt_path cfg))] else [])
     @ [Ask q_nccl_version (attr (cuda_nccl_version cfg)),
        Ask q_capabilities (property (cuda_capabilities_str cfg))]"
  let ?B = "[Ask q_mpi (flag (with_mpi cfg))]
     @ (if val (with_mpi cfg) then [Ask q_mpi_path (attr (mpi_path cfg))] else [])
     @ [Ask q_opts_flags (literal (opts_flags_str cfg)),
        Ask q_android (literal ''N''),
        Ask q_finished no_answer,
        Ask Expect_EOF no_answer]"
  have "steps fs cfg = ?A @ [Ask q_clang (flag (cuda_with_clang cfg)),
                             Ask q_gcc_path (attr (cuda_gcc_path cfg))] @ ?B"
    using assms by (simp add: steps_def)
  then show ?thesis by blast
qed

lemma init_success_gcc:
  assumes "init fs p = Inr cfg" "with_cuda p"
  shows "\<exists>gp. cuda_gcc_path p = Some gp"
proof -
  have ok: "\<not> cuda_with_clang p" "check_cuda fs p = Inr ()"
    using init_success [OF assms(1)] by simp_all
  from check_cuda_cases [OF assms(2) ok(1), of fs] ok(2)
  have "\<forall>f. \<not> field_bad fs p f" by auto
  then have "\<not> field_bad fs p Cuda_gcc_path" by (rule spec)
  then show ?thesis by (cases "cuda_gcc_path p") (simp_all add: no_such_path_def)
qed

text \<open>
  C9. For a configuration that was constructed successfully, the clang flag is off, no
  run raises NotImplementedError, whatever the child does, and every completed run of a
  GPU build has answered the clang prompt with \<open>N\<close> and gone on to the host compiler
  prompt, answered with the gcc path.
\<close>

theorem clang_branch_unreachable:
  assumes "init fs p = Inr cfg"
  shows "\<not> bool_y_n_bool (cuda_with_clang cfg)
       \<and> (\<forall>msg. raised (run fs px cfg d) \<noteq> Some (NotImplementedError msg))
       \<and> (with_cuda p \<longrightarrow> (\<forall>d'. run fs px cfg d = Done d' \<longrightarrow>
            (\<exists>xs ys gp. cuda_gcc_path p = Some gp
               \<and> calls d' = xs @ [Expect q_clang, Sendline ''N'',
                                  Expect q_gcc_path, Sendline gp] @ ys)))"
proof (intro conjI allI impI)
  have cfg: "cfg = store p" and noclang: "\<not> cuda_with_clang p"
    using init_success [OF assms] by simp_all
  have v: "\<not> val (cuda_with_clang cfg)" using cfg noclang by (simp add: store_def)
  then show "\<not> bool_y_n_bool (cuda_with_clang cfg)" by (simp add: bool_y_n_bool_val)
  show "raised (run fs px cfg d) \<noteq> Some (NotImplementedError msg)" for msg
  proof
    assume "raised (run fs px cfg d) = Some (NotImplementedError msg)"
    then obtain d' where "run fs px cfg d = Raised (NotImplementedError msg) d'"
      by (cases "run fs px cfg d") simp_all
    with run_follows_plan [of fs px cfg d]
    obtain st where "st \<in> set (steps fs cfg)" "step_error st = Some (NotImplementedError msg)"
      by blast
    from steps_errors [OF v this] show False by simp
  qed
  show "\<exists>xs ys gp. cuda_gcc_path p = Some gp
               \<and> calls d' = xs @ [Expect q_clang, Sendline ''N'',
                                  Expect q_gcc_path, Sendline gp] @ ys"
    if gpu: "with_cuda p" and fin: "run fs px cfg d = Done d'" for d'
  proof -
    obtain gp where gp: "cuda_gcc_path p = Some gp"
      using init_success_gcc [OF assms gpu] by blast
    have c: "val (with_cuda cfg)" using cfg gpu by (simp add: store_def)
    from steps_gpu_split [OF c v, of fs] obtain A B where
      split: "steps fs cfg = A @ [Ask q_clang (flag (cuda_with_clang cfg)),
                                   Ask q_gcc_path (attr (cuda_gcc_path cfg))] @ B"
      by blast
    have two: "step_calls (Ask q_clang (flag (cuda_with_clang cfg)))
                 @ step_calls (Ask q_gcc_path (attr (cuda_gcc_path cfg)))
               = [Expect q_clang, Sendline ''N'', Expect q_gcc_path, Sendline gp]"
      using cfg noclang gp by (simp add: store_def flag_def attr_def flag_N)
    from run_follows_plan [of fs px cfg d] fin
    have calls: "calls d' = calls d @ Spawn (command cfg) # planned_calls (steps fs cfg)"
      and ok: "\<forall>st\<in>set (steps fs cfg). step_error st = None"
      by blast+
    have "planned_calls (steps fs cfg) = concat (map step_calls (steps fs cfg))"
      by (rule planned_calls_no_error [OF ok])
    also have "\<dots> = concat (map step_calls A)
          @ [Expect q_clang, Sendline ''N'', Expect q_gcc_path, Sendline gp]
          @ concat (map step_calls B)"
      unfolding split using two by simp
    finally have "planned_calls (steps fs cfg)
        = concat (map step_calls A)
          @ [Expect q_clang, Sendline ''N'', Expect q_gcc_path, Sendline gp]
          @ concat (map step_calls B)" .
    then have "calls d' = (calls d @ Spawn (command cfg) # concat (map step_calls A))
          @ [Expect q_clang, Sendline ''N'', Expect q_gcc_path, Sendline gp]
          @ concat (map step_calls B)"
      using calls by simp
    with gp show ?thesis by blast
  qed
qed

lemma steps_no_error:
  assumes "python_bin_path fs cfg = Inr bin" "python_dist_path fs cfg = Inr lib"
    and "cuda_capabilities cfg \<noteq> None \<or> \<not> val (with_cuda cfg)"
    and "\<not> val (cuda_with_clang cfg)"
  shows "\<forall>st\<in>set (steps fs cfg). step_error st = None"
proof
  fix st assume st: "st \<in> set (steps fs cfg)"
  show "step_error st = None"
  proof (cases "step_error st")
    case None
    then show ?thesis .
  next
    case (Some e)
    from st Some assms(4) have "st = Ask q_python_bin (property (python_bin_path fs cfg))
      \<or> st = Ask q_python_lib (property (python_dist_path fs cfg))
      \<or> (st = Ask q_capabilities (property (cuda_capabilities_str cfg)) \<and> val (with_cuda cfg))"
      by (auto simp: steps_def split: if_splits)
    then have False
      using Some assms(1,2,3)
      by (auto simp: property_def cuda_capabilities_str_def split: option.splits)
    then show ?thesis ..
  qed
qed

lemma init_gpu: "init example_fs gpu_params = Inr (store gpu_params)"
  by (simp add: init_def check_cuda_def check_gcc_def check_tensorrt_def check_mpi_def
      gpu_params_def minimal_params_def example_fs_def)

lemma gpu_run_completes: "\<exists>d. run example_fs obliging (store gpu_params) fresh = Done d"
proof (rule run_completes [OF cooperative_obliging])
  show "\<forall>st\<in>set (steps example_fs (store gpu_params)). step_error st = None"
  proof (rule steps_no_error)
    show "python_bin_path example_fs (store gpu_params) = Inr ''/usr/bin/python3.6''"
      by (simp add: python_bin_path_def store_def gpu_params_def minimal_params_def example_fs_def)
    show "python_dist_path example_fs (store gpu_params) = Inr ''/usr/lib/python3/dist-packages''"
      by (simp add: python_dist_path_def startswith_def store_def gpu_params_def
          minimal_params_def example_fs_def)
    show "cuda_capabilities (store gpu_params) \<noteq> None \<or> \<not> val (with_cuda (store gpu_params))"
      by (simp add: store_def gpu_params_def)
    show "\<not> val (cuda_with_clang (store gpu_params))"
      by (simp add: store_def gpu_params_def minimal_params_def)
  qed
qed

theorem clang_branch_unreachable_witness:
  "init example_fs gpu_params = Inr (store gpu_params)
   \<and> with_cuda gpu_params
   \<and> raised (run example_fs obliging (store gpu_params) fresh) = None
   \<and> (\<exists>xs ys. calls (final (run example_fs obliging (store gpu_params) fresh))
         = xs @ [Expect q_clang, Sendline ''N'', Expect q_gcc_path, Sendline ''/usr/bin/gcc''] @ ys)"
proof -
  have gpu: "with_cuda gpu_params" by (simp add: gpu_params_def)
  have gcc: "cuda_gcc_path gpu_params = Some ''/usr/bin/gcc''" by (simp add: gpu_params_def)
  obtain d where d: "run example_fs obliging (store gpu_params) fresh = Done d"
    using gpu_run_completes by blast
  from clang_branch_unreachable [OF init_gpu, of obliging fresh] gpu d gcc
  obtain xs ys where "calls d
      = xs @ [Expect q_clang, Sendline ''N'', Expect q_gcc_path, Sendline ''/usr/bin/gcc''] @ ys"
    by auto
  then show ?thesis using init_gpu gpu d by auto
qed

lemma awaited_append: "awaited (xs @ ys) = awaited xs @ awaited ys"
  by (induction xs rule: awaited.induct) simp_all

lemma prefix_awaited: "prefix xs ys \<Longrightarrow> prefix (awaited xs) (awaited ys)"
  by (auto simp: prefix_def awaited_append)

lemma awaited_step_calls: "step_error st = None \<Longrightarrow> awaited (step_calls st) = step_prompts st"
  by (cases st rule: step_calls.cases) simp_all

lemma awaited_planned_calls:
  "prefix (awaited (planned_calls ss)) (concat (map step_prompts ss))"
  by (induction ss) (simp_all add: awaited_append awaited_step_calls)

lemma awaited_planned_calls_no_error:
  "\<forall>st\<in>set ss. step_error st = None \<Longrightarrow>
   awaited (planned_calls ss) = concat (map step_prompts ss)"
  by (induction ss) (simp_all add: awaited_append awaited_step_calls)

lemma steps_prompts:
  "concat (map step_prompts (steps fs (store p)))
     = prompt_sequence (with_cuda p) (cuda_with_tensorrt p) (with_mpi p) (cuda_with_clang p)"
  by (simp add: steps_def prompt_sequence_def store_def)

text \<open>
  C10. The truth value of a wrapped flag is the boolean it wraps, for the four flags
  \<open>run\<close> branches on as for any other; and the prompts a run awaits are, whatever the
  child does, a prefix of a sequence that depends on these four booleans only, and are
  that sequence when the run completes.
\<close>

theorem branches_follow_flags:
  "bool_y_n_bool (Bool_y_n b) = b
   \<and> bool_y_n_bool (with_cuda (store p)) = with_cuda p
   \<and> bool_y_n_bool (cuda_with_tensorrt (store p)) = cuda_with_tensorrt p
   \<and> bool_y_n_bool (with_mpi (store p)) = with_mpi p
   \<and> bool_y_n_bool (cuda_with_clang (store p)) = cuda_with_clang p
   \<and> prefix (awaited (calls (final (run fs px (store p) fresh))))
        (prompt_sequence (with_cuda p) (cuda_with_tensorrt p) (with_mpi p) (cuda_with_clang p))
   \<and> (\<forall>d. run fs px (store p) fresh = Done d \<longrightarrow>
        awaited (calls d)
          = prompt_sequence (with_cuda p) (cuda_with_tensorrt p) (with_mpi p) (cuda_with_clang p))"
proof -
  let ?seq = "prompt_sequence (with_cuda p) (cuda_with_tensorrt p) (with_mpi p) (cuda_with_clang p)"
  have fresh: "calls (fresh :: 'a driver) = []" by (simp add: fresh_def)
  note follows = run_follows_plan [of fs px "store p" fresh, unfolded fresh append_Nil]
  have "prefix (awaited (calls (final (run fs px (store p) fresh))))
          (awaited (Spawn (command (store p)) # planned_calls (steps fs (store p))))"
    using follows by (blast intro: prefix_awaited)
  moreover have "prefix (awaited (Spawn (command (store p)) # planned_calls (steps fs (store p))))
          ?seq"
    using awaited_planned_calls [of "steps fs (store p)"] by (simp add: steps_prompts)
  ultimately have a: "prefix (awaited (calls (final (run fs px (store p) fresh)))) ?seq"
    by (rule prefix_order.trans)
  have b: "awaited (calls d) = ?seq" if "run fs px (store p) fresh = Done d" for d
  proof -
    from follows that
    have "calls d = Spawn (command (store p)) # planned_calls (steps fs (store p))"
      and "\<forall>st\<in>set (steps fs (store p)). step_error st = None"
      by blast+
    then show ?thesis
      using awaited_planned_calls_no_error [of "steps fs (store p)"] by (simp add: steps_prompts)
  qed
  have c: "bool_y_n_bool (Bool_y_n b) = b" for b by (simp add: bool_y_n_bool_def)
  show ?thesis using a b by (simp add: c store_def)
qed

theorem branches_follow_flags_witness:
  "run example_fs obliging (store gpu_params) fresh
     = Done (final (run example_fs obliging (store gpu_params) fresh))
   \<and> awaited (calls (final (run example_fs obliging (store gpu_params) fresh)))
       = prompt_sequence True True False False"
proof -
  obtain d where d: "run example_fs obliging (store gpu_params) fresh = Done d"
    using gpu_run_completes by blast
  have flags: "with_cuda gpu_params" "cuda_with_tensorrt gpu_params" "\<not> with_mpi gpu_params"
    "\<not> cuda_with_clang gpu_params"
    by (simp_all add: gpu_params_def minimal_params_def)
  from branches_follow_flags [of _ gpu_params example_fs obliging] d
  have "awaited (calls d) = prompt_sequence (with_cuda gpu_params)
      (cuda_with_tensorrt gpu_params) (with_mpi gpu_params) (cuda_with_clang gpu_params)"
    by blast
  then show ?thesis using d flags by simp
qed

end
